theory Spec2Isabelle
  imports Complex_Main
begin

section \<open>Errors and results\<close>

text \<open>
  Every exception the Python can raise is a value of \<open>error\<close>; a computation that may
  raise returns \<open>error + 'a\<close>, with \<open>Inl\<close> for the exception.
\<close>

datatype error =
    ConstructError   \<comment> \<open>a layer constructor rejects its arguments (\<open>ValueError\<close>)\<close>
  | UnpackError      \<comment> \<open>\<open>z0, z3, z6, z9, z12 = x\<close> on a list that has not five items\<close>
  | ChannelError     \<comment> \<open>a layer receives a tensor with the wrong channel count\<close>
  | KernelError      \<comment> \<open>the kernel is larger than the padded input, or the padding is negative\<close>
  | BatchNormError   \<comment> \<open>batch normalisation in training mode over a single value per channel\<close>
  | CatEmptyError    \<comment> \<open>\<open>torch.cat\<close> of an empty list\<close>
  | CatShapeError    \<comment> \<open>\<open>torch.cat\<close> of tensors that differ outside the concatenated axis\<close>
  | KeyError         \<comment> \<open>a dictionary has not the key that is looked up\<close>
  | MetricError      \<comment> \<open>a metric or the logger rejects its arguments\<close>
  | ExternalError    \<comment> \<open>an exception of an external collaborator (network, loss, Dice, F-score)\<close>

fun then_do :: "error + 'a \<Rightarrow> ('a \<Rightarrow> error + 'b) \<Rightarrow> error + 'b" where
  "then_do (Inl e) f = Inl e"
| "then_do (Inr v) f = f v"

section \<open>Tensor shapes and the layers of the decoder\<close>

text \<open>
  The decoder is a composition of library layers. The claims about it are claims about
  tensor shapes, so a tensor is represented by its shape (batch, channels, height, width)
  and a layer by the shape function the library documents for it, including the cases in
  which the layer raises.
\<close>

record shape =
  batch :: int
  channels :: int
  height :: int
  width :: int

datatype module =
    Conv2d int int int int int int
      \<comment> \<open>in_channels, out_channels, kernel_size, stride, padding, groups\<close>
  | ConvTranspose2d int int int int int int int
      \<comment> \<open>in_channels, out_channels, kernel_size, stride, padding, output_padding, groups\<close>
  | BatchNorm2d int
  | ReLU
  | Sequential "module list"

text \<open>The checks the layer constructors make on their arguments.\<close>

fun constructible :: "module \<Rightarrow> bool" where
  "constructible (Conv2d i out k s p g) = (0 < g \<and> i mod g = 0 \<and> out mod g = 0)"
| "constructible (ConvTranspose2d i out k s p op g) = (0 < g \<and> i mod g = 0 \<and> out mod g = 0)"
| "constructible (BatchNorm2d n) = True"
| "constructible ReLU = True"
| "constructible (Sequential ms) = list_all constructible ms"

text \<open>
  The forward pass of a layer on a shape. \<open>training\<close> is the module's mode: batch
  normalisation refuses, in training mode only, an input with a single value per channel.
\<close>

fun run :: "bool \<Rightarrow> module \<Rightarrow> shape \<Rightarrow> error + shape"
  and run_all :: "bool \<Rightarrow> module list \<Rightarrow> shape \<Rightarrow> error + shape" where
  "run training (Conv2d i out k s p g) x =
     (if channels x \<noteq> i then Inl ChannelError
      else if k \<le> 0 \<or> s \<le> 0 \<or> p < 0 \<or> height x + 2 * p < k \<or> width x + 2 * p < k
        then Inl KernelError
      else Inr (x\<lparr>channels := out,
                  height := (height x + 2 * p - (k - 1) - 1) div s + 1,
                  width := (width x + 2 * p - (k - 1) - 1) div s + 1\<rparr>))"
| "run training (ConvTranspose2d i out k s p op g) x =
     (if channels x \<noteq> i then Inl ChannelError
      else if k \<le> 0 \<or> s \<le> 0 \<or> p < 0 \<or> op < 0 then Inl KernelError
      else Inr (x\<lparr>channels := out,
                  height := (height x - 1) * s - 2 * p + (k - 1) + op + 1,
                  width := (width x - 1) * s - 2 * p + (k - 1) + op + 1\<rparr>))"
| "run training (BatchNorm2d n) x =
     (if channels x \<noteq> n then Inl ChannelError
      else if training \<and> batch x * height x * width x = 1 then Inl BatchNormError
      else Inr x)"
| "run training ReLU x = Inr x"
| "run training (Sequential ms) x = run_all training ms x"
| "run_all training [] x = Inr x"
| "run_all training (m # ms) x = then_do (run training m x) (run_all training ms)"

text \<open>\<open>torch.cat(xs, dim=1)\<close>: the operands agree on every axis but the channel axis.\<close>

fun torch_cat_dim1 :: "shape list \<Rightarrow> error + shape" where
  "torch_cat_dim1 [] = Inl CatEmptyError"
| "torch_cat_dim1 (x # xs) =
     (if list_all (\<lambda>y. batch y = batch x \<and> height y = height x \<and> width y = width x) xs
      then Inr (x\<lparr>channels := sum_list (map channels (x # xs))\<rparr>)
      else Inl CatShapeError)"

subsection \<open>Primitive and composite blocks\<close>

definition SingleDeconv2DBlock :: "int \<Rightarrow> int \<Rightarrow> int \<Rightarrow> module" where
  "SingleDeconv2DBlock in_planes out_planes groups =
     ConvTranspose2d in_planes out_planes 2 2 0 0 groups"

definition SingleConv2DBlock :: "int \<Rightarrow> int \<Rightarrow> int \<Rightarrow> int \<Rightarrow> module" where
  "SingleConv2DBlock in_planes out_planes kernel_size groups =
     Conv2d in_planes out_planes kernel_size 1 ((kernel_size - 1) div 2) groups"

definition Conv2DBlock :: "int \<Rightarrow> int \<Rightarrow> int \<Rightarrow> module" where
  "Conv2DBlock in_planes out_planes kernel_size = Sequential
     [SingleConv2DBlock in_planes in_planes kernel_size in_planes,
      BatchNorm2d in_planes,
      ReLU,
      SingleConv2DBlock in_planes out_planes 1 1,
      BatchNorm2d out_planes,
      ReLU]"

definition Deconv2DBlock :: "int \<Rightarrow> int \<Rightarrow> int \<Rightarrow> module" where
  "Deconv2DBlock in_planes out_planes kernel_size = Sequential
     [SingleDeconv2DBlock in_planes in_planes in_planes,
      SingleConv2DBlock in_planes in_planes kernel_size in_planes,
      BatchNorm2d in_planes,
      ReLU,
      SingleConv2DBlock in_planes out_planes 1 1,
      BatchNorm2d out_planes,
      ReLU]"

definition SingleDWConv2DBlock :: "int \<Rightarrow> int \<Rightarrow> module" where
  "SingleDWConv2DBlock in_planes out_planes = Sequential
     [SingleDeconv2DBlock in_planes in_planes in_planes,
      SingleConv2DBlock in_planes out_planes 1 1]"

subsection \<open>The UNETR decoder\<close>

record unetr =
  decoder0 :: module
  decoder3 :: module
  decoder6 :: module
  decoder9 :: module
  decoder12_upsampler :: module
  decoder9_upsampler :: module
  decoder6_upsampler :: module
  decoder3_upsampler :: module
  decoder0_header :: module

definition UNETR_modules :: "int \<Rightarrow> int \<Rightarrow> int \<Rightarrow> int \<Rightarrow> unetr" where
  "UNETR_modules transformer_width output_dim input_dim init_filters =
     \<lparr>decoder0 = Sequential
        [Conv2DBlock input_dim init_filters 3,
         Conv2DBlock init_filters init_filters 3],
      decoder3 = Sequential
        [Deconv2DBlock transformer_width (8 * init_filters) 3,
         Deconv2DBlock (8 * init_filters) (4 * init_filters) 3,
         Deconv2DBlock (4 * init_filters) (2 * init_filters) 3],
      decoder6 = Sequential
        [Deconv2DBlock transformer_width (8 * init_filters) 3,
         Deconv2DBlock (8 * init_filters) (4 * init_filters) 3],
      decoder9 = Deconv2DBlock transformer_width (8 * init_filters) 3,
      decoder12_upsampler = SingleDWConv2DBlock transformer_width (8 * init_filters),
      decoder9_upsampler = Sequential
        [Conv2DBlock (16 * init_filters) (8 * init_filters) 3,
         Conv2DBlock (8 * init_filters) (8 * init_filters) 3,
         Conv2DBlock (8 * init_filters) (8 * init_filters) 3,
         SingleDWConv2DBlock (8 * init_filters) (4 * init_filters)],
      decoder6_upsampler = Sequential
        [Conv2DBlock (8 * init_filters) (4 * init_filters) 3,
         Conv2DBlock (4 * init_filters) (4 * init_filters) 3,
         SingleDWConv2DBlock (4 * init_filters) (2 * init_filters)],
      decoder3_upsampler = Sequential
        [Conv2DBlock (4 * init_filters) (2 * init_filters) 3,
         Conv2DBlock (2 * init_filters) (2 * init_filters) 3,
         SingleDWConv2DBlock (2 * init_filters) init_filters],
      decoder0_header = Sequential
        [Conv2DBlock (2 * init_filters) init_filters 3,
         Conv2DBlock init_filters init_filters 3,
         SingleConv2DBlock init_filters output_dim 1 1]\<rparr>"

definition unetr_modules_list :: "unetr \<Rightarrow> module list" where
  "unetr_modules_list u =
     [decoder0 u, decoder3 u, decoder6 u, decoder9 u, decoder12_upsampler u,
      decoder9_upsampler u, decoder6_upsampler u, decoder3_upsampler u, decoder0_header u]"

text \<open>\<open>UNETR.__init__\<close>: it raises when one of the layer constructors does.\<close>

definition UNETR :: "int \<Rightarrow> int \<Rightarrow> int \<Rightarrow> int \<Rightarrow> error + unetr" where
  "UNETR transformer_width output_dim input_dim init_filters =
     (let u = UNETR_modules transformer_width output_dim input_dim init_filters
      in if list_all constructible (unetr_modules_list u) then Inr u
         else Inl ConstructError)"

text \<open>\<open>UNETR.forward\<close>, line by line.\<close>

fun forward :: "bool \<Rightarrow> unetr \<Rightarrow> shape list \<Rightarrow> error + shape" where
  "forward training u [z0, z3, z6, z9, z12] =
     then_do (run training (decoder12_upsampler u) z12) (\<lambda>z12.
     then_do (run training (decoder9 u) z9) (\<lambda>z9.
     then_do (torch_cat_dim1 [z9, z12]) (\<lambda>c9.
     then_do (run training (decoder9_upsampler u) c9) (\<lambda>z9.
     then_do (run training (decoder6 u) z6) (\<lambda>z6.
     then_do (torch_cat_dim1 [z6, z9]) (\<lambda>c6.
     then_do (run training (decoder6_upsampler u) c6) (\<lambda>z6.
     then_do (run training (decoder3 u) z3) (\<lambda>z3.
     then_do (torch_cat_dim1 [z3, z6]) (\<lambda>c3.
     then_do (run training (decoder3_upsampler u) c3) (\<lambda>z3.
     then_do (run training (decoder0 u) z0) (\<lambda>z0.
     then_do (torch_cat_dim1 [z0, z3]) (\<lambda>c0.
     run training (decoder0_header u) c0))))))))))))"
| "forward training u x = Inl UnpackError"

text \<open>
  The same forward pass, keeping the shapes of the operands of each of the four
  concatenations beside the shape of the output. Shapes say whether a concatenation
  is possible; the order of its operands is the subject of \<open>forward_origins\<close> below.
\<close>

record merges =
  merge9 :: "shape list"
  merge6 :: "shape list"
  merge3 :: "shape list"
  merge0 :: "shape list"
  out_logits :: shape

fun forward_merges :: "bool \<Rightarrow> unetr \<Rightarrow> shape list \<Rightarrow> error + merges" where
  "forward_merges training u [z0, z3, z6, z9, z12] =
     then_do (run training (decoder12_upsampler u) z12) (\<lambda>z12.
     then_do (run training (decoder9 u) z9) (\<lambda>z9.
     then_do (torch_cat_dim1 [z9, z12]) (\<lambda>c9.
     then_do (run training (decoder9_upsampler u) c9) (\<lambda>z9'.
     then_do (run training (decoder6 u) z6) (\<lambda>z6.
     then_do (torch_cat_dim1 [z6, z9']) (\<lambda>c6.
     then_do (run training (decoder6_upsampler u) c6) (\<lambda>z6'.
     then_do (run training (decoder3 u) z3) (\<lambda>z3.
     then_do (torch_cat_dim1 [z3, z6']) (\<lambda>c3.
     then_do (run training (decoder3_upsampler u) c3) (\<lambda>z3'.
     then_do (run training (decoder0 u) z0) (\<lambda>z0.
     then_do (torch_cat_dim1 [z0, z3']) (\<lambda>c0.
     then_do (run training (decoder0_header u) c0) (\<lambda>out.
     Inr \<lparr>merge9 = [z9, z12], merge6 = [z6, z9'], merge3 = [z3, z6'],
          merge0 = [z0, z3'], out_logits = out\<rparr>)))))))))))))"
| "forward_merges training u x = Inl UnpackError"

subsection \<open>Where the channels of a tensor come from\<close>

text \<open>
  A shape does not tell the two operands of a concatenation apart, so the order of the
  channel axis needs more: a tensor is a shape together with, for each channel in
  order, the set of pyramid levels that the channel's values are computed from. A
  grouped convolution computes an output channel from the input channels of its
  group; normalisation and activation work channel by channel; \<open>torch.cat\<close> along
  the channel axis puts the channels of its operands one after the other, in the order
  of the list.
\<close>

datatype level = Z0 | Z3 | Z6 | Z9 | Z12


definition group_flow :: "int \<Rightarrow> int \<Rightarrow> int \<Rightarrow> level set list \<Rightarrow> level set list" where
  "group_flow i out g src =
     map (\<lambda>j. \<Union> (set (take (nat (i div g))
                (drop (j div nat (out div g) * nat (i div g)) src))))
       [0..<nat out]"

fun origin_flow :: "module \<Rightarrow> level set list \<Rightarrow> level set list"
  and origin_flow_all :: "module list \<Rightarrow> level set list \<Rightarrow> level set list" where
  "origin_flow (Conv2d i out k s p g) src = group_flow i out g src"
| "origin_flow (ConvTranspose2d i out k s p op g) src = group_flow i out g src"
| "origin_flow (BatchNorm2d n) src = src"
| "origin_flow ReLU src = src"
| "origin_flow (Sequential ms) src = origin_flow_all ms src"
| "origin_flow_all [] src = src"
| "origin_flow_all (m # ms) src = origin_flow_all ms (origin_flow m src)"






section \<open>Metric aggregation and the epoch protocol\<close>

text \<open>
  Tensors that carry data are nested lists: a four-dimensional tensor is indexed by
  sample, channel, row and column. Floating-point numbers are represented by reals, so
  rounding is outside the model; no statement below depends on it.
\<close>

type_synonym 'a tensor2 = "'a list list"
type_synonym 'a tensor4 = "'a list list list list"

definition sigmoid :: "real \<Rightarrow> real" where
  "sigmoid x = 1 / (1 + exp (- x))"

text \<open>\<open>torch.cat(ts)\<close> along the sample axis: the samples agree on the other axes.\<close>

definition torch_cat :: "'a tensor4 list \<Rightarrow> error + 'a tensor4" where
  "torch_cat ts =
     (if ts = [] then Inl CatEmptyError
      else case concat ts of
             [] \<Rightarrow> Inr []
           | s # ss \<Rightarrow>
               if list_all (\<lambda>s'. map (map length) s' = map (map length) s) ss
               then Inr (s # ss) else Inl CatShapeError)"

subsection \<open>The metric collection\<close>

text \<open>
  The collection of binary metrics (accuracy, recall, F1, precision, specificity,
  confusion matrix) of the metrics library: its running statistics are the four cells
  of the confusion matrix, \<open>update\<close> adds a batch to them, \<open>compute\<close> derives the
  metrics (a quotient with denominator zero is 0), \<open>reset\<close> zeroes them and
  \<open>clone\<close> copies the collection under another prefix.
\<close>

record collection =
  prefix :: string
  tp :: nat
  fp :: nat
  tn :: nat
  fn :: nat

datatype metric_value = Scalar real | Matrix "nat list list"

definition MetricCollection :: "string \<Rightarrow> collection" where
  "MetricCollection pre = \<lparr>prefix = pre, tp = 0, fp = 0, tn = 0, fn = 0\<rparr>"

definition clone :: "collection \<Rightarrow> string \<Rightarrow> collection" where
  "clone c pre = c\<lparr>prefix := pre\<rparr>"

definition reset :: "collection \<Rightarrow> collection" where
  "reset c = c\<lparr>tp := 0, fp := 0, tn := 0, fn := 0\<rparr>"

fun tally :: "collection \<Rightarrow> (int \<times> int) list \<Rightarrow> collection" where
  "tally c [] = c"
| "tally c ((p, t) # pts) =
     tally (if p = 1 \<and> t = 1 then c\<lparr>tp := tp c + 1\<rparr>
            else if p = 1 \<and> t = 0 then c\<lparr>fp := fp c + 1\<rparr>
            else if p = 0 \<and> t = 0 then c\<lparr>tn := tn c + 1\<rparr>
            else c\<lparr>fn := fn c + 1\<rparr>) pts"

definition binary_values :: "int tensor2 \<Rightarrow> bool" where
  "binary_values t = list_all (list_all (\<lambda>v. v = 0 \<or> v = 1)) t"

text \<open>\<open>update\<close> on integer predictions and integer targets.\<close>

definition update :: "collection \<Rightarrow> int tensor2 \<Rightarrow> int tensor2 \<Rightarrow> error + collection" where
  "update c preds target =
     (if map length preds \<noteq> map length target then Inl MetricError
      else if \<not> binary_values preds \<or> \<not> binary_values target then Inl MetricError
      else Inr (tally c (zip (concat preds) (concat target))))"

text \<open>
  \<open>update\<close> on probabilities and floating-point targets: a target is 0 or 1, a
  probability is a positive prediction when it exceeds 0.5.
\<close>

definition update_probs :: "collection \<Rightarrow> real tensor2 \<Rightarrow> real tensor2 \<Rightarrow> error + collection" where
  "update_probs c probs target =
     (if \<not> list_all (list_all (\<lambda>v. v = 0 \<or> v = 1)) target then Inl MetricError
      else update c (map (map (\<lambda>p. if 1 / 2 < p then 1 else 0)) probs)
             (map (map (\<lambda>v. if v = 1 then 1 else 0)) target))"

definition safe_divide :: "nat \<Rightarrow> nat \<Rightarrow> real" where
  "safe_divide n d = (if d = 0 then 0 else real n / real d)"

definition compute :: "collection \<Rightarrow> (string \<times> metric_value) list" where
  "compute c =
     [(prefix c @ ''accuracy'', Scalar (safe_divide (tp c + tn c) (tp c + tn c + fp c + fn c))),
      (prefix c @ ''confmat'', Matrix [[tn c, fp c], [fn c, tp c]]),
      (prefix c @ ''f1'', Scalar (safe_divide (2 * tp c) (2 * tp c + fn c + fp c))),
      (prefix c @ ''precision'', Scalar (safe_divide (tp c) (tp c + fp c))),
      (prefix c @ ''recall'', Scalar (safe_divide (tp c) (tp c + fn c))),
      (prefix c @ ''specificity'', Scalar (safe_divide (tn c) (tn c + fp c)))]"

subsection \<open>Dictionaries and the logger\<close>

fun pop :: "string \<Rightarrow> (string \<times> 'v) list \<Rightarrow> error + ('v \<times> (string \<times> 'v) list)" where
  "pop k [] = Inl KeyError"
| "pop k ((k', v) # kvs) =
     (if k = k' then Inr (v, kvs)
      else then_do (pop k kvs) (\<lambda>(r, rest). Inr (r, (k', v) # rest)))"

fun lookup_all :: "(string \<times> 'v) list \<Rightarrow> string list \<Rightarrow> error + 'v list" where
  "lookup_all d [] = Inr []"
| "lookup_all d (k # ks) =
     (case map_of d k of
        None \<Rightarrow> Inl KeyError
      | Some v \<Rightarrow> then_do (lookup_all d ks) (\<lambda>vs. Inr (v # vs)))"

datatype emission =
    Log string real                  \<comment> \<open>\<open>self.log(name, value)\<close>\<close>
  | Figure string "nat list list"    \<comment> \<open>the heatmap of a confusion matrix, sent to the experiment logger\<close>

fun log_dict :: "(string \<times> metric_value) list \<Rightarrow> error + emission list" where
  "log_dict [] = Inr []"
| "log_dict ((k, Scalar r) # kvs) = then_do (log_dict kvs) (\<lambda>es. Inr (Log k r # es))"
| "log_dict ((k, Matrix m) # kvs) = Inl MetricError"

definition digit :: "nat \<Rightarrow> string" where
  "digit i = (if i = 0 then ''0'' else ''1'')"

text \<open>
  The part the four epoch-end hooks share: the popped confusion matrix is logged cell
  by cell (\<open>for i in range(2): for j in range(2)\<close>) and drawn as a heatmap.
\<close>

definition log_confmat :: "string \<Rightarrow> string \<Rightarrow> metric_value \<Rightarrow> error + emission list" where
  "log_confmat cell_prefix figure_name v =
     (case v of
        Scalar r \<Rightarrow> Inl MetricError
      | Matrix confmat \<Rightarrow>
          Inr (concat (map (\<lambda>i. map (\<lambda>j.
                 Log (cell_prefix @ digit i @ ''_'' @ digit j) (real (confmat ! i ! j)))
                 [0, 1]) [0, 1])
               @ [Figure figure_name confmat]))"

subsection \<open>The classification model\<close>

text \<open>
  The encoder, the linear layer and the loss are collaborators, taken as functions.
  A batch has the label and, depending on the model, the embedding or the image.
\<close>

record 'x cls_env =
  cls_encoder :: "('x \<Rightarrow> error + 'x) option"
  cls_model :: "'x \<Rightarrow> error + real tensor2"
  cls_loss_fn :: "real tensor2 \<Rightarrow> real tensor2 \<Rightarrow> error + real"

record 'x cls_batch =
  cls_embs :: "'x option"
  cls_image :: "'x option"
  cls_label :: "real tensor2"

record metrics_state =
  val_metrics :: collection
  test_metrics :: collection

definition ClassificationModel_init :: metrics_state where
  "ClassificationModel_init =
     (let val_metrics = MetricCollection []
      in \<lparr>val_metrics = val_metrics, test_metrics = clone val_metrics ''test_''\<rparr>)"

definition ClassificationModel_forward :: "'x cls_env \<Rightarrow> 'x \<Rightarrow> error + real tensor2" where
  "ClassificationModel_forward env x =
     (case cls_encoder env of
        None \<Rightarrow> cls_model env x
      | Some encoder \<Rightarrow> then_do (encoder x) (cls_model env))"

text \<open>
  The first lines of each step: \<open>x = batch["embs"]\<close> when the model has no
  encoder, \<open>x = batch["image"]\<close> otherwise.
\<close>

definition batch_input :: "'x cls_env \<Rightarrow> 'x cls_batch \<Rightarrow> error + 'x" where
  "batch_input env b =
     (case (case cls_encoder env of None \<Rightarrow> cls_embs b | Some encoder \<Rightarrow> cls_image b) of
        None \<Rightarrow> Inl KeyError
      | Some x \<Rightarrow> Inr x)"

definition ClassificationModel_training_step ::
  "'x cls_env \<Rightarrow> metrics_state \<Rightarrow> 'x cls_batch
     \<Rightarrow> error + (real \<times> emission list \<times> metrics_state)" where
  "ClassificationModel_training_step env st b =
     then_do (batch_input env b) (\<lambda>x.
     then_do (ClassificationModel_forward env x) (\<lambda>logits.
     then_do (cls_loss_fn env logits (cls_label b)) (\<lambda>loss.
     Inr (loss, [Log ''train_loss'' loss], st))))"

definition ClassificationModel_validation_step ::
  "'x cls_env \<Rightarrow> metrics_state \<Rightarrow> 'x cls_batch
     \<Rightarrow> error + (emission list \<times> metrics_state)" where
  "ClassificationModel_validation_step env st b =
     then_do (batch_input env b) (\<lambda>x.
     then_do (ClassificationModel_forward env x) (\<lambda>logits.
     then_do (cls_loss_fn env logits (cls_label b)) (\<lambda>loss.
     let probs = map (map sigmoid) logits in
     then_do (update_probs (val_metrics st) probs (cls_label b)) (\<lambda>m.
     Inr ([Log ''val_loss'' loss], st\<lparr>val_metrics := m\<rparr>)))))"

definition ClassificationModel_on_validation_epoch_end ::
  "metrics_state \<Rightarrow> error + (emission list \<times> metrics_state)" where
  "ClassificationModel_on_validation_epoch_end st =
     (let results = compute (val_metrics st);
          st = st\<lparr>val_metrics := reset (val_metrics st)\<rparr>
      in then_do (pop ''confmat'' results) (\<lambda>(confmat, results).
         then_do (log_dict results) (\<lambda>scalars.
         then_do (log_confmat ''confusion_matrix_'' ''confusion_matrix'' confmat) (\<lambda>cells.
         Inr (scalars @ cells, st)))))"

definition ClassificationModel_test_step ::
  "'x cls_env \<Rightarrow> metrics_state \<Rightarrow> 'x cls_batch
     \<Rightarrow> error + (emission list \<times> metrics_state)" where
  "ClassificationModel_test_step env st b =
     then_do (batch_input env b) (\<lambda>x.
     then_do (ClassificationModel_forward env x) (\<lambda>logits.
     then_do (cls_loss_fn env logits (cls_label b)) (\<lambda>loss.
     let probs = map (map sigmoid) logits in
     then_do (update_probs (test_metrics st) probs (cls_label b)) (\<lambda>m.
     Inr ([Log ''test_loss'' loss], st\<lparr>test_metrics := m\<rparr>)))))"

definition ClassificationModel_on_test_epoch_end ::
  "metrics_state \<Rightarrow> error + (emission list \<times> metrics_state)" where
  "ClassificationModel_on_test_epoch_end st =
     (let results = compute (test_metrics st);
          st = st\<lparr>test_metrics := reset (test_metrics st)\<rparr>
      in then_do (pop ''test_confmat'' results) (\<lambda>(confmat, results).
         then_do (log_dict results) (\<lambda>scalars.
         then_do (log_confmat ''test_confusion_matrix_'' ''confusion_matrix'' confmat) (\<lambda>cells.
         Inr (scalars @ cells, st)))))"

subsection \<open>The segmentation model\<close>

text \<open>
  The decoder's numeric forward pass, the loss, the F-score of the segmentation
  library and the Dice metric are collaborators, taken as functions. The Dice metric
  is a state \<open>'d\<close> with an \<open>update\<close>, a \<open>compute\<close> and the state that its
  constructor and its \<open>reset\<close> produce. The constructor asserts that there is no
  encoder, so the model's \<open>forward\<close> is the decoder's.
\<close>

record ('x, 'd) seg_env =
  seg_model :: "'x list \<Rightarrow> error + real tensor4"
  seg_loss_fn :: "real tensor4 \<Rightarrow> real tensor4 \<Rightarrow> error + real"
  Fscore :: "real tensor4 \<Rightarrow> real tensor4 \<Rightarrow> error + real"
  dice_update :: "'d \<Rightarrow> int tensor4 \<Rightarrow> real tensor4 \<Rightarrow> error + 'd"
  dice_compute :: "'d \<Rightarrow> error + real"
  DiceScore :: 'd

record 'x seg_batch =
  seg_image :: 'x
  seg_mask :: "real tensor4"
  seg_embs :: "(string \<times> 'x) list"
  seg_label :: "int tensor2"

record 'd seg_state = metrics_state +
  dice_score :: 'd
  validation_step_outputs :: "(real tensor4 \<times> real tensor4) list"

definition pixel_treshold :: int where
  "pixel_treshold = 1000"

definition SegmentationModel_init :: "('x, 'd) seg_env \<Rightarrow> 'd seg_state" where
  "SegmentationModel_init env =
     (let val_metrics = MetricCollection ''val_''
      in \<lparr>val_metrics = val_metrics,
          test_metrics = clone val_metrics ''test_'',
          dice_score = DiceScore env,
          validation_step_outputs = []\<rparr>)"

definition SegmentationModel_forward ::
  "('x, 'd) seg_env \<Rightarrow> 'x list \<Rightarrow> error + real tensor4" where
  "SegmentationModel_forward env x = seg_model env x"

text \<open>\<open>(probs > 0.5).sum((2, 3))\<close> for one sample and one channel.\<close>

definition foreground_pixels :: "real list list \<Rightarrow> int" where
  "foreground_pixels ch =
     sum_list (map (\<lambda>row. int (length (filter (\<lambda>p. 1 / 2 < p) row))) ch)"

definition pred_label_of :: "real tensor4 \<Rightarrow> int tensor2" where
  "pred_label_of probs =
     map (map (\<lambda>ch. if pixel_treshold < foreground_pixels ch then 1 else 0)) probs"

definition pred_mask_of :: "real tensor4 \<Rightarrow> int tensor4" where
  "pred_mask_of probs = map (map (map (map (\<lambda>p. if 1 / 2 < p then 1 else 0)))) probs"

definition SegmentationModel_training_step ::
  "('x, 'd) seg_env \<Rightarrow> 'd seg_state \<Rightarrow> 'x seg_batch
     \<Rightarrow> error + (real \<times> emission list \<times> 'd seg_state)" where
  "SegmentationModel_training_step env st b =
     then_do (lookup_all (seg_embs b) [''z3'', ''z6'', ''z9'', ''z12'']) (\<lambda>embs.
     then_do (SegmentationModel_forward env (seg_image b # embs)) (\<lambda>logits.
     then_do (seg_loss_fn env logits (seg_mask b)) (\<lambda>loss.
     then_do (Fscore env logits (seg_mask b)) (\<lambda>dsc.
     Inr (loss, [Log ''train_loss'' loss, Log ''train_dsc'' dsc], st)))))"

definition SegmentationModel_validation_step ::
  "('x, 'd) seg_env \<Rightarrow> 'd seg_state \<Rightarrow> 'x seg_batch
     \<Rightarrow> error + (emission list \<times> 'd seg_state)" where
  "SegmentationModel_validation_step env st b =
     then_do (SegmentationModel_forward env (seg_image b # map snd (seg_embs b))) (\<lambda>logits.
     then_do (seg_loss_fn env logits (seg_mask b)) (\<lambda>loss.
     let probs = map (map (map (map sigmoid))) logits;
         pred_label = pred_label_of probs
     in
     then_do (update (val_metrics st) pred_label (seg_label b)) (\<lambda>m.
     let pred_mask = pred_mask_of probs in
     then_do (dice_update env (dice_score st) pred_mask (seg_mask b)) (\<lambda>d.
     Inr ([Log ''val_loss'' loss],
          st\<lparr>val_metrics := m, dice_score := d,
             validation_step_outputs :=
               validation_step_outputs st @ [(logits, seg_mask b)]\<rparr>)))))"

definition SegmentationModel_on_validation_epoch_end ::
  "('x, 'd) seg_env \<Rightarrow> 'd seg_state \<Rightarrow> error + (emission list \<times> 'd seg_state)" where
  "SegmentationModel_on_validation_epoch_end env st =
     (let results = compute (val_metrics st);
          st = st\<lparr>val_metrics := reset (val_metrics st)\<rparr>
      in then_do (dice_compute env (dice_score st)) (\<lambda>dsc.
         let st = st\<lparr>dice_score := DiceScore env\<rparr> in
         then_do (pop ''val_confmat'' results) (\<lambda>(confmat, results).
         then_do (log_dict results) (\<lambda>scalars.
         then_do (log_confmat ''val_confusion_matrix_'' ''val_confusion_matrix'' confmat)
           (\<lambda>cells.
         let logits = map fst (validation_step_outputs st);
             targets = map snd (validation_step_outputs st);
             st = st\<lparr>validation_step_outputs := []\<rparr>
         in
         then_do (torch_cat logits) (\<lambda>logits.
         then_do (torch_cat targets) (\<lambda>targets.
         then_do (Fscore env logits targets) (\<lambda>smp.
         Inr ([Log ''val_dsc'' dsc] @ scalars @ cells @ [Log ''val_smp'' smp], st)))))))))"

definition SegmentationModel_test_step ::
  "('x, 'd) seg_env \<Rightarrow> 'd seg_state \<Rightarrow> 'x seg_batch
     \<Rightarrow> error + (emission list \<times> 'd seg_state)" where
  "SegmentationModel_test_step env st b =
     then_do (SegmentationModel_forward env (seg_image b # map snd (seg_embs b))) (\<lambda>logits.
     then_do (seg_loss_fn env logits (seg_mask b)) (\<lambda>loss.
     let probs = map (map (map (map sigmoid))) logits;
         pred_label = pred_label_of probs
     in
     then_do (update (test_metrics st) pred_label (seg_label b)) (\<lambda>m.
     let pred_mask = pred_mask_of probs in
     then_do (dice_update env (dice_score st) pred_mask (seg_mask b)) (\<lambda>d.
     Inr ([Log ''test_loss'' loss],
          st\<lparr>test_metrics := m, dice_score := d,
             validation_step_outputs :=
               validation_step_outputs st @ [(logits, seg_mask b)]\<rparr>)))))"

definition SegmentationModel_on_test_epoch_end ::
  "('x, 'd) seg_env \<Rightarrow> 'd seg_state \<Rightarrow> error + (emission list \<times> 'd seg_state)" where
  "SegmentationModel_on_test_epoch_end env st =
     (let results = compute (test_metrics st);
          st = st\<lparr>test_metrics := reset (test_metrics st)\<rparr>
      in then_do (dice_compute env (dice_score st)) (\<lambda>dsc.
         let st = st\<lparr>dice_score := DiceScore env\<rparr> in
         then_do (pop ''test_confmat'' results) (\<lambda>(confmat, results).
         then_do (log_dict results) (\<lambda>scalars.
         then_do (log_confmat ''test_confusion_matrix_'' ''test_confusion_matrix'' confmat)
           (\<lambda>cells.
         let preds = map fst (validation_step_outputs st);
             targets = map snd (validation_step_outputs st);
             st = st\<lparr>validation_step_outputs := []\<rparr>
         in
         then_do (torch_cat preds) (\<lambda>preds.
         then_do (torch_cat targets) (\<lambda>targets.
         then_do (Fscore env preds targets) (\<lambda>smp.
         Inr ([Log ''test_dsc'' dsc] @ scalars @ cells @ [Log ''test_smp'' smp], st)))))))))"

subsection \<open>One validation epoch, as the trainer loop drives it\<close>

text \<open>
  The trainer calls \<open>validation_step\<close> once per batch and then
  \<open>on_validation_epoch_end\<close>; an exception ends the run. The result has what the
  steps logged, what the reduction logged, and the state after the reduction.
\<close>

fun SegmentationModel_validation_steps ::
  "('x, 'd) seg_env \<Rightarrow> 'd seg_state \<Rightarrow> 'x seg_batch list
     \<Rightarrow> error + (emission list \<times> 'd seg_state)" where
  "SegmentationModel_validation_steps env st [] = Inr ([], st)"
| "SegmentationModel_validation_steps env st (b # bs) =
     then_do (SegmentationModel_validation_step env st b) (\<lambda>(out, st).
     then_do (SegmentationModel_validation_steps env st bs) (\<lambda>(outs, st).
     Inr (out @ outs, st)))"

definition SegmentationModel_validation_epoch ::
  "('x, 'd) seg_env \<Rightarrow> 'd seg_state \<Rightarrow> 'x seg_batch list
     \<Rightarrow> error + (emission list \<times> emission list \<times> 'd seg_state)" where
  "SegmentationModel_validation_epoch env st bs =
     then_do (SegmentationModel_validation_steps env st bs) (\<lambda>(outs, st).
     then_do (SegmentationModel_on_validation_epoch_end env st) (\<lambda>(reduced, st).
     Inr (outs, reduced, st)))"

text \<open>The accumulators of the validation phase hold nothing.\<close>

definition val_accumulators_empty :: "('x, 'd) seg_env \<Rightarrow> 'd seg_state \<Rightarrow> bool" where
  "val_accumulators_empty env st =
     (tp (val_metrics st) = 0 \<and> fp (val_metrics st) = 0
      \<and> tn (val_metrics st) = 0 \<and> fn (val_metrics st) = 0
      \<and> dice_score st = DiceScore env
      \<and> validation_step_outputs st = [])"

subsection \<open>An instance of the collaborators\<close>

text \<open>
  Concrete collaborators on which the operations can be evaluated: the network
  returns its first input as logits, the loss is 0, the F-score is 1, and the Dice
  metric counts its updates.
\<close>

definition example_env :: "(real tensor4, nat) seg_env" where
  "example_env =
     \<lparr>seg_model = (\<lambda>x. case x of [] \<Rightarrow> Inl ExternalError | z0 # zs \<Rightarrow> Inr z0),
      seg_loss_fn = (\<lambda>logits y. Inr 0),
      Fscore = (\<lambda>logits y. Inr 1),
      dice_update = (\<lambda>d preds y. Inr (d + 1)),
      dice_compute = (\<lambda>d. Inr (real d)),
      DiceScore = 0\<rparr>"

definition example_batch :: "real tensor4 seg_batch" where
  "example_batch =
     \<lparr>seg_image = [[[[1, - 1]]]],
      seg_mask = [[[[1, 0]]]],
      seg_embs = [(''z3'', []), (''z6'', []), (''z9'', []), (''z12'', [])],
      seg_label = [[0]]\<rparr>"

definition example_cls_env :: "real tensor2 cls_env" where
  "example_cls_env =
     \<lparr>cls_encoder = None, cls_model = (\<lambda>x. Inr x), cls_loss_fn = (\<lambda>logits y. Inr 0)\<rparr>"

definition example_cls_batch :: "real tensor2 cls_batch" where
  "example_cls_batch = \<lparr>cls_embs = Some [[2]], cls_image = None, cls_label = [[1]]\<rparr>"

subsection \<open>The F-score of the segmentation library\<close>

text \<open>
  \<open>Fscore(activation='sigmoid')\<close> as the segmentation library documents it, with its
  defaults \<open>beta = 1\<close>, \<open>eps = 1e-7\<close> and \<open>threshold = 0.5\<close>: the logits go
  through the sigmoid and the threshold, and over all samples, channels and pixels
  \<open>tp = sum(gt * pr)\<close>, \<open>fp = sum(pr) - tp\<close>, \<open>fn = sum(gt) - tp\<close>, the score
  being \<open>(2 tp + eps) / (2 tp + fn + fp + eps)\<close>. It is used to evaluate the model on
  concrete inputs; the general statements take the F-score as any function.
\<close>

definition f_score :: "real tensor4 \<Rightarrow> real tensor4 \<Rightarrow> real" where
  "f_score y_pr y_gt =
     (let pr = map (\<lambda>p. if 1 / 2 < sigmoid p then 1 else 0) (concat (concat (concat y_pr)));
          gt = concat (concat (concat y_gt));
          tp = sum_list (map (\<lambda>(g, p). g * p) (zip gt pr));
          fp = sum_list pr - tp;
          fn = sum_list gt - tp;
          eps = 1 / 10000000
      in (2 * tp + eps) / (2 * tp + fn + fp + eps))"

definition library_env :: "(real tensor4, nat) seg_env" where
  "library_env = example_env\<lparr>Fscore := (\<lambda>logits y. Inr (f_score logits y))\<rparr>"

section \<open>Shape of the blocks\<close>

lemma run_SingleConv2DBlock_odd:
  assumes "channels x = i" "odd k" "0 < k" "0 < height x" "0 < width x"
  shows "run tr (SingleConv2DBlock i out k g) x = Inr (x\<lparr>channels := out\<rparr>)"
proof -
  from \<open>odd k\<close> have "2 * ((k - 1) div 2) = k - 1" by presburger
  with assms show ?thesis by (simp add: SingleConv2DBlock_def)
qed


lemma numel_not_one:
  fixes b h w :: int
  assumes "1 \<le> b" "2 \<le> h" "1 \<le> w"
  shows "b * h * w \<noteq> 1"
proof -
  have "1 * 2 \<le> b * h" using assms by (intro mult_mono) auto
  then have "2 * 1 \<le> (b * h) * w" using assms by (intro mult_mono) auto
  then show ?thesis by simp
qed

lemma run_Conv2DBlock:
  assumes "channels x = i" "1 \<le> batch x" "2 \<le> height x" "1 \<le> width x"
  shows "run tr (Conv2DBlock i out 3) x = Inr (x\<lparr>channels := out\<rparr>)"
  using assms numel_not_one [of "batch x" "height x" "width x"]
  by (simp add: Conv2DBlock_def SingleConv2DBlock_def)

lemma run_Deconv2DBlock:
  assumes "channels x = i" "1 \<le> batch x" "1 \<le> height x" "1 \<le> width x"
  shows "run tr (Deconv2DBlock i out 3) x =
         Inr (x\<lparr>channels := out, height := 2 * height x, width := 2 * width x\<rparr>)"
  using assms numel_not_one [of "batch x" "2 * height x" "2 * width x"]
  by (simp add: Deconv2DBlock_def SingleConv2DBlock_def SingleDeconv2DBlock_def)

lemma run_SingleDWConv2DBlock:
  assumes "channels x = i" "1 \<le> height x" "1 \<le> width x"
  shows "run tr (SingleDWConv2DBlock i out) x =
         Inr (x\<lparr>channels := out, height := 2 * height x, width := 2 * width x\<rparr>)"
  using assms
  by (simp add: SingleDWConv2DBlock_def SingleConv2DBlock_def SingleDeconv2DBlock_def)

lemma UNETR_constructible:
  assumes "1 \<le> tw" "1 \<le> idim" "1 \<le> f"
  shows "UNETR tw od idim f = Inr (UNETR_modules tw od idim f)"
  using assms
  by (simp add: UNETR_def UNETR_modules_def unetr_modules_list_def Conv2DBlock_def
      Deconv2DBlock_def SingleDWConv2DBlock_def SingleConv2DBlock_def SingleDeconv2DBlock_def)

lemma UNETR_modules_sel:
  "decoder0 (UNETR_modules tw od idim f) =
     Sequential [Conv2DBlock idim f 3, Conv2DBlock f f 3]"
  "decoder3 (UNETR_modules tw od idim f) =
     Sequential [Deconv2DBlock tw (8 * f) 3, Deconv2DBlock (8 * f) (4 * f) 3,
       Deconv2DBlock (4 * f) (2 * f) 3]"
  "decoder6 (UNETR_modules tw od idim f) =
     Sequential [Deconv2DBlock tw (8 * f) 3, Deconv2DBlock (8 * f) (4 * f) 3]"
  "decoder9 (UNETR_modules tw od idim f) = Deconv2DBlock tw (8 * f) 3"
  "decoder12_upsampler (UNETR_modules tw od idim f) = SingleDWConv2DBlock tw (8 * f)"
  "decoder9_upsampler (UNETR_modules tw od idim f) =
     Sequential [Conv2DBlock (16 * f) (8 * f) 3, Conv2DBlock (8 * f) (8 * f) 3,
       Conv2DBlock (8 * f) (8 * f) 3, SingleDWConv2DBlock (8 * f) (4 * f)]"
  "decoder6_upsampler (UNETR_modules tw od idim f) =
     Sequential [Conv2DBlock (8 * f) (4 * f) 3, Conv2DBlock (4 * f) (4 * f) 3,
       SingleDWConv2DBlock (4 * f) (2 * f)]"
  "decoder3_upsampler (UNETR_modules tw od idim f) =
     Sequential [Conv2DBlock (4 * f) (2 * f) 3, Conv2DBlock (2 * f) (2 * f) 3,
       SingleDWConv2DBlock (2 * f) f]"
  "decoder0_header (UNETR_modules tw od idim f) =
     Sequential [Conv2DBlock (2 * f) f 3, Conv2DBlock f f 3, SingleConv2DBlock f od 1 1]"
  by (simp_all add: UNETR_modules_def)


lemma forward_merges_shapes:
  assumes "1 \<le> tw" "1 \<le> od" "1 \<le> idim" "1 \<le> f" "1 \<le> b" "1 \<le> h" "1 \<le> w"
  shows "forward_merges tr (UNETR_modules tw od idim f)
       [\<lparr>batch = b, channels = idim, height = 16 * h, width = 16 * w\<rparr>,
        \<lparr>batch = b, channels = tw, height = h, width = w\<rparr>,
        \<lparr>batch = b, channels = tw, height = h, width = w\<rparr>,
        \<lparr>batch = b, channels = tw, height = h, width = w\<rparr>,
        \<lparr>batch = b, channels = tw, height = h, width = w\<rparr>] =
     Inr \<lparr>merge9 = [\<lparr>batch = b, channels = 8 * f, height = 2 * h, width = 2 * w\<rparr>,
                     \<lparr>batch = b, channels = 8 * f, height = 2 * h, width = 2 * w\<rparr>],
          merge6 = [\<lparr>batch = b, channels = 4 * f, height = 4 * h, width = 4 * w\<rparr>,
                     \<lparr>batch = b, channels = 4 * f, height = 4 * h, width = 4 * w\<rparr>],
          merge3 = [\<lparr>batch = b, channels = 2 * f, height = 8 * h, width = 8 * w\<rparr>,
                     \<lparr>batch = b, channels = 2 * f, height = 8 * h, width = 8 * w\<rparr>],
          merge0 = [\<lparr>batch = b, channels = f, height = 16 * h, width = 16 * w\<rparr>,
                     \<lparr>batch = b, channels = f, height = 16 * h, width = 16 * w\<rparr>],
          out_logits = \<lparr>batch = b, channels = od, height = 16 * h, width = 16 * w\<rparr>\<rparr>"
  using assms
  by (simp add: UNETR_modules_sel run_Conv2DBlock run_Deconv2DBlock run_SingleDWConv2DBlock
      run_SingleConv2DBlock_odd)

lemma map_sum_then_do:
  "map_sum id g (then_do r f) = then_do r (\<lambda>v. map_sum id g (f v))"
  by (cases r) simp_all

lemma then_do_Inr_fun: "then_do r (\<lambda>v. Inr v) = r"
  by (cases r) simp_all

lemma forward_eq_merges:
  "forward tr u x = map_sum id out_logits (forward_merges tr u x)"
  by (cases "(tr, u, x)" rule: forward.cases)
     (simp_all add: map_sum_then_do then_do_Inr_fun del: torch_cat_dim1.simps)

lemma then_do_InrE:
  assumes "then_do r f = Inr y"
  obtains v where "r = Inr v" "f v = Inr y"
  using assms by (cases r) simp_all

lemma run_all_snoc: "run_all tr (ms @ [m]) x = then_do (run_all tr ms x) (run tr m)"
proof (induction ms arbitrary: x)
  case Nil
  show ?case by (cases "run tr m x") simp_all
next
  case (Cons a ms)
  show ?case by (cases "run tr a x") (simp_all add: Cons.IH)
qed










section \<open>Origins of the channels\<close>



lemma group_flow_pointwise:
  assumes "length src = nat i"
  shows "group_flow i out 1 src = replicate (nat out) (\<Union> (set src))"
proof -
  have "map (\<lambda>j. \<Union> (set (take (nat i) (drop (j div nat out * nat i) src)))) [0..<nat out]
      = map (\<lambda>j. \<Union> (set src)) [0..<nat out]"
    using assms by (intro map_cong) simp_all
  then show ?thesis by (simp add: group_flow_def map_replicate_const)
qed




lemma origin_flow_SingleConv2DBlock_pointwise:
  assumes "length src = nat i"
  shows "origin_flow (SingleConv2DBlock i out k 1) src = replicate (nat out) (\<Union> (set src))"
  using assms by (simp add: SingleConv2DBlock_def group_flow_pointwise)











section \<open>Claims about the decoder\<close>



text \<open>
  Claim C1, as amended. For every valid \<open>(transformer_width, init_filters, input_dim,
  output_dim)\<close> (each at least 1) and every feature pyramid in which z3, z6, z9 and z12
  have \<open>transformer_width\<close> channels and share the spatial size \<open>h \<times> w\<close>, and z0 has
  \<open>input_dim\<close> channels and the spatial size \<open>16h \<times> 16w\<close>, the constructor and the
  forward pass succeed, and the output has z0's batch and spatial size and
  \<open>output_dim\<close> channels.
\<close>

theorem UNETR_forward_shape:
  assumes "1 \<le> transformer_width" "1 \<le> output_dim" "1 \<le> input_dim" "1 \<le> init_filters"
    and "1 \<le> b" "1 \<le> h" "1 \<le> w"
  shows "\<exists>u. UNETR transformer_width output_dim input_dim init_filters = Inr u
     \<and> forward training u
         [\<lparr>batch = b, channels = input_dim, height = 16 * h, width = 16 * w\<rparr>,
          \<lparr>batch = b, channels = transformer_width, height = h, width = w\<rparr>,
          \<lparr>batch = b, channels = transformer_width, height = h, width = w\<rparr>,
          \<lparr>batch = b, channels = transformer_width, height = h, width = w\<rparr>,
          \<lparr>batch = b, channels = transformer_width, height = h, width = w\<rparr>]
       = Inr \<lparr>batch = b, channels = output_dim, height = 16 * h, width = 16 * w\<rparr>"
proof -
  note u = UNETR_constructible [OF assms(1) assms(3) assms(4), of output_dim]
  note m = forward_merges_shapes [OF assms, of training]
  show ?thesis
    by (simp add: u forward_eq_merges m del: forward_merges.simps forward.simps)
qed

theorem UNETR_forward_shape_witness:
  "\<exists>u. UNETR 64 2 3 8 = Inr u
     \<and> forward False u
         [\<lparr>batch = 1, channels = 3, height = 512, width = 512\<rparr>,
          \<lparr>batch = 1, channels = 64, height = 32, width = 32\<rparr>,
          \<lparr>batch = 1, channels = 64, height = 32, width = 32\<rparr>,
          \<lparr>batch = 1, channels = 64, height = 32, width = 32\<rparr>,
          \<lparr>batch = 1, channels = 64, height = 32, width = 32\<rparr>]
       = Inr \<lparr>batch = 1, channels = 2, height = 512, width = 512\<rparr>"
  using UNETR_forward_shape [of 64 2 3 8 1 32 32 False] by simp

text \<open>
  The claim as the specification states it (z0 of spatial size \<open>8 \<times> S\<close>) fails at the
  specification's own example: the last concatenation receives z0 at \<open>256 \<times> 256\<close> and
  the z3 path at \<open>512 \<times> 512\<close>.
\<close>

theorem UNETR_forward_8S_counterexample:
  "then_do (UNETR 64 2 3 8) (\<lambda>u. forward False u
     [\<lparr>batch = 1, channels = 3, height = 256, width = 256\<rparr>,
      \<lparr>batch = 1, channels = 64, height = 32, width = 32\<rparr>,
      \<lparr>batch = 1, channels = 64, height = 32, width = 32\<rparr>,
      \<lparr>batch = 1, channels = 64, height = 32, width = 32\<rparr>,
      \<lparr>batch = 1, channels = 64, height = 32, width = 32\<rparr>]) = Inl CatShapeError"
  by (simp add: UNETR_def UNETR_modules_def unetr_modules_list_def Conv2DBlock_def
      Deconv2DBlock_def SingleDWConv2DBlock_def SingleConv2DBlock_def SingleDeconv2DBlock_def)

text \<open>
  Claim C2. Under the same validity conditions, with z0 of spatial size \<open>16h \<times> 16w\<close>,
  the forward pass succeeds with output shape \<open>(b, output_dim, 16h, 16w)\<close>, and the two
  operands of each concatenation have equal batch and spatial size: \<open>2h \<times> 2w\<close> at the
  z9 merge (one doubling on each side), \<open>4h \<times> 4w\<close> at the z6 merge, \<open>8h \<times> 8w\<close> at
  the z3 merge, where the z3 branch has doubled three times, and \<open>16h \<times> 16w\<close> at the
  z0 merge, where the z3 path has doubled a fourth time and z0 not at all.
\<close>

theorem UNETR_forward_merges_16S:
  assumes "1 \<le> transformer_width" "1 \<le> output_dim" "1 \<le> input_dim" "1 \<le> init_filters"
    and "1 \<le> b" "1 \<le> h" "1 \<le> w"
    and "x = [\<lparr>batch = b, channels = input_dim, height = 16 * h, width = 16 * w\<rparr>,
          \<lparr>batch = b, channels = transformer_width, height = h, width = w\<rparr>,
          \<lparr>batch = b, channels = transformer_width, height = h, width = w\<rparr>,
          \<lparr>batch = b, channels = transformer_width, height = h, width = w\<rparr>,
          \<lparr>batch = b, channels = transformer_width, height = h, width = w\<rparr>]"
  shows "\<exists>u. UNETR transformer_width output_dim input_dim init_filters = Inr u
     \<and> forward training u x
         = Inr \<lparr>batch = b, channels = output_dim, height = 16 * h, width = 16 * w\<rparr>
     \<and> forward_merges training u x = Inr
         \<lparr>merge9 = [\<lparr>batch = b, channels = 8 * init_filters, height = 2 * h, width = 2 * w\<rparr>,
                    \<lparr>batch = b, channels = 8 * init_filters, height = 2 * h, width = 2 * w\<rparr>],
          merge6 = [\<lparr>batch = b, channels = 4 * init_filters, height = 4 * h, width = 4 * w\<rparr>,
                    \<lparr>batch = b, channels = 4 * init_filters, height = 4 * h, width = 4 * w\<rparr>],
          merge3 = [\<lparr>batch = b, channels = 2 * init_filters, height = 8 * h, width = 8 * w\<rparr>,
                    \<lparr>batch = b, channels = 2 * init_filters, height = 8 * h, width = 8 * w\<rparr>],
          merge0 = [\<lparr>batch = b, channels = init_filters, height = 16 * h, width = 16 * w\<rparr>,
                    \<lparr>batch = b, channels = init_filters, height = 16 * h, width = 16 * w\<rparr>],
          out_logits = \<lparr>batch = b, channels = output_dim, height = 16 * h, width = 16 * w\<rparr>\<rparr>"
proof -
  note u = UNETR_constructible [OF assms(1) assms(3) assms(4), of output_dim]
  note m = forward_merges_shapes [OF assms(1-7), of training]
  show ?thesis unfolding assms(8)
    by (simp add: u forward_eq_merges m del: forward_merges.simps forward.simps)
qed

theorem UNETR_forward_merges_16S_witness:
  "\<exists>u. UNETR 768 1 3 32 = Inr u
     \<and> forward True u
          [\<lparr>batch = 4, channels = 3, height = 224, width = 224\<rparr>,
           \<lparr>batch = 4, channels = 768, height = 14, width = 14\<rparr>,
           \<lparr>batch = 4, channels = 768, height = 14, width = 14\<rparr>,
           \<lparr>batch = 4, channels = 768, height = 14, width = 14\<rparr>,
           \<lparr>batch = 4, channels = 768, height = 14, width = 14\<rparr>]
         = Inr \<lparr>batch = 4, channels = 1, height = 224, width = 224\<rparr>
     \<and> map_sum id merge0 (forward_merges True u
          [\<lparr>batch = 4, channels = 3, height = 224, width = 224\<rparr>,
           \<lparr>batch = 4, channels = 768, height = 14, width = 14\<rparr>,
           \<lparr>batch = 4, channels = 768, height = 14, width = 14\<rparr>,
           \<lparr>batch = 4, channels = 768, height = 14, width = 14\<rparr>,
           \<lparr>batch = 4, channels = 768, height = 14, width = 14\<rparr>])
         = Inr [\<lparr>batch = 4, channels = 32, height = 224, width = 224\<rparr>,
                \<lparr>batch = 4, channels = 32, height = 224, width = 224\<rparr>]"
  using UNETR_forward_merges_16S [of 768 1 3 32 4 14 14 _ True, OF _ _ _ _ _ _ _ refl]
  by auto

text \<open>
  Claim C9, as amended. For every odd kernel size (the decoder uses 1 and 3),
  \<open>SingleConv2DBlock\<close> maps an input of spatial size \<open>H \<times> W\<close> with the block's input
  channel count to an output of the same spatial size.
\<close>

theorem SingleConv2DBlock_odd_kernel_preserves_size:
  assumes "odd kernel_size" "0 < kernel_size"
    and "channels x = in_planes" "0 < height x" "0 < width x"
  shows "\<exists>y. run training (SingleConv2DBlock in_planes out_planes kernel_size groups) x = Inr y
     \<and> height y = height x \<and> width y = width x
     \<and> batch y = batch x \<and> channels y = out_planes"
  using assms by (simp add: run_SingleConv2DBlock_odd)

theorem SingleConv2DBlock_odd_kernel_preserves_size_witness:
  "run False (SingleConv2DBlock 3 3 3 3) \<lparr>batch = 1, channels = 3, height = 5, width = 7\<rparr>
     = Inr \<lparr>batch = 1, channels = 3, height = 5, width = 7\<rparr>"
  using SingleConv2DBlock_odd_kernel_preserves_size
    [of 3 "\<lparr>batch = 1, channels = 3, height = 5, width = 7\<rparr>" 3 False 3 3]
  by auto

text \<open>
  With an even kernel size the padding \<open>(kernel_size - 1) // 2\<close> is one short, and
  each spatial dimension shrinks by one: kernel size 2 maps \<open>4 \<times> 4\<close> to \<open>3 \<times> 3\<close>.
\<close>

theorem SingleConv2DBlock_even_kernel_counterexample:
  "run False (SingleConv2DBlock 1 1 2 1) \<lparr>batch = 1, channels = 1, height = 4, width = 4\<rparr>
     = Inr \<lparr>batch = 1, channels = 1, height = 3, width = 3\<rparr>"
  by (simp add: SingleConv2DBlock_def)

section \<open>Properties of the metric protocol\<close>

lemma sigmoid_gt_half: "1 / 2 < sigmoid x \<longleftrightarrow> 0 < x"
proof -
  have pos: "0 < 1 + exp (- x)" by (simp add: add_pos_pos)
  have "1 / 2 < sigmoid x \<longleftrightarrow> 1 + exp (- x) < 2"
    unfolding sigmoid_def using pos by (simp add: field_simps)
  also have "\<dots> \<longleftrightarrow> exp (- x) < 1" by auto
  also have "\<dots> \<longleftrightarrow> 0 < x" by simp
  finally show ?thesis .
qed

lemma sigmoid_gt_half_mult: "1 < sigmoid x * 2 \<longleftrightarrow> 0 < x"
  using sigmoid_gt_half [of x] by simp

lemma tally_prefix: "prefix (tally c pts) = prefix c"
  by (induction c pts rule: tally.induct) simp_all

lemma update_prefix: "update c p t = Inr c' \<Longrightarrow> prefix c' = prefix c"
  by (auto simp: update_def tally_prefix split: if_splits)

lemma validation_step_Inr:
  assumes "SegmentationModel_validation_step env st b = Inr (out, st')"
  obtains logits loss m d where
    "SegmentationModel_forward env (seg_image b # map snd (seg_embs b)) = Inr logits"
    "seg_loss_fn env logits (seg_mask b) = Inr loss"
    "update (val_metrics st) (pred_label_of (map (map (map (map sigmoid))) logits)) (seg_label b)
       = Inr m"
    "dice_update env (dice_score st) (pred_mask_of (map (map (map (map sigmoid))) logits))
       (seg_mask b) = Inr d"
    "out = [Log ''val_loss'' loss]"
    "st' = st\<lparr>val_metrics := m, dice_score := d,
             validation_step_outputs := validation_step_outputs st @ [(logits, seg_mask b)]\<rparr>"
  using assms unfolding SegmentationModel_validation_step_def Let_def
  by (elim then_do_InrE) auto

lemma test_step_Inr:
  assumes "SegmentationModel_test_step env st b = Inr (out, st')"
  obtains logits loss m d where
    "SegmentationModel_forward env (seg_image b # map snd (seg_embs b)) = Inr logits"
    "seg_loss_fn env logits (seg_mask b) = Inr loss"
    "update (test_metrics st) (pred_label_of (map (map (map (map sigmoid))) logits)) (seg_label b)
       = Inr m"
    "dice_update env (dice_score st) (pred_mask_of (map (map (map (map sigmoid))) logits))
       (seg_mask b) = Inr d"
    "out = [Log ''test_loss'' loss]"
    "st' = st\<lparr>test_metrics := m, dice_score := d,
             validation_step_outputs := validation_step_outputs st @ [(logits, seg_mask b)]\<rparr>"
  using assms unfolding SegmentationModel_test_step_def Let_def
  by (elim then_do_InrE) auto

lemma on_validation_epoch_end_Inr:
  assumes "SegmentationModel_on_validation_epoch_end env st = Inr (out, st')"
  shows "st' = st\<lparr>val_metrics := reset (val_metrics st), dice_score := DiceScore env,
                  validation_step_outputs := []\<rparr>"
  using assms unfolding SegmentationModel_on_validation_epoch_end_def Let_def
  by (elim then_do_InrE) (auto split: prod.splits elim!: then_do_InrE)

lemma on_test_epoch_end_Inr:
  assumes "SegmentationModel_on_test_epoch_end env st = Inr (out, st')"
  shows "st' = st\<lparr>test_metrics := reset (test_metrics st), dice_score := DiceScore env,
                  validation_step_outputs := []\<rparr>"
  using assms unfolding SegmentationModel_on_test_epoch_end_def Let_def
  by (elim then_do_InrE) (auto split: prod.splits elim!: then_do_InrE)

lemma training_step_Inr:
  assumes "SegmentationModel_training_step env st b = Inr (loss, out, st')"
  obtains embs logits dsc where
    "lookup_all (seg_embs b) [''z3'', ''z6'', ''z9'', ''z12''] = Inr embs"
    "SegmentationModel_forward env (seg_image b # embs) = Inr logits"
    "seg_loss_fn env logits (seg_mask b) = Inr loss"
    "Fscore env logits (seg_mask b) = Inr dsc"
    "out = [Log ''train_loss'' loss, Log ''train_dsc'' dsc]"
    "st' = st"
  using assms unfolding SegmentationModel_training_step_def
  by (elim then_do_InrE) auto

lemma validation_steps_frame:
  "SegmentationModel_validation_steps env st bs = Inr (outs, st') \<Longrightarrow>
     test_metrics st' = test_metrics st \<and> prefix (val_metrics st') = prefix (val_metrics st)"
proof (induction bs arbitrary: st outs)
  case Nil
  then show ?case by simp
next
  case (Cons b bs)
  from Cons.prems obtain out st1 outs1 where
    s1: "SegmentationModel_validation_step env st b = Inr (out, st1)" and
    s2: "SegmentationModel_validation_steps env st1 bs = Inr (outs1, st')"
    by (auto elim!: then_do_InrE split: prod.splits)
  from s1 have "test_metrics st1 = test_metrics st \<and> prefix (val_metrics st1) = prefix (val_metrics st)"
    by (elim validation_step_Inr) (simp add: update_prefix)
  with Cons.IH [OF s2] show ?case by simp
qed

lemma epoch_fixpoint:
  assumes e: "val_accumulators_empty env st"
    and r: "SegmentationModel_validation_epoch env st bs = Inr (outs, reduced, st')"
  shows "st' = st"
proof -
  from r obtain st1 where
    s: "SegmentationModel_validation_steps env st bs = Inr (outs, st1)" and
    f: "SegmentationModel_on_validation_epoch_end env st1 = Inr (reduced, st')"
    unfolding SegmentationModel_validation_epoch_def
    by (auto elim!: then_do_InrE split: prod.splits)
  note fr = validation_steps_frame [OF s]
  have "reset (val_metrics st1) = val_metrics st"
    using e fr by (simp add: reset_def val_accumulators_empty_def)
  with on_validation_epoch_end_Inr [OF f] e fr show ?thesis
    by (simp add: val_accumulators_empty_def)
qed

lemmas seg_eval =
  example_env_def example_batch_def SegmentationModel_init_def SegmentationModel_forward_def
  SegmentationModel_training_step_def SegmentationModel_validation_step_def
  SegmentationModel_test_step_def SegmentationModel_on_validation_epoch_end_def
  SegmentationModel_on_test_epoch_end_def SegmentationModel_validation_epoch_def
  update_def binary_values_def pred_label_of_def foreground_pixels_def pixel_treshold_def
  pred_mask_of_def compute_def reset_def MetricCollection_def clone_def log_confmat_def
  digit_def torch_cat_def safe_divide_def Let_def sigmoid_gt_half sigmoid_gt_half_mult
  val_accumulators_empty_def

lemma example_validation_epoch: "\<exists>outs reduced. SegmentationModel_validation_epoch example_env
     (SegmentationModel_init example_env) [example_batch, example_batch] =
   Inr (outs, reduced, SegmentationModel_init example_env)"
  by (simp add: seg_eval)

lemma foreground_pixels_concat:
  "foreground_pixels ch = int (length (filter (\<lambda>p. 1 / 2 < p) (concat ch)))"
  unfolding foreground_pixels_def by (induction ch) simp_all

lemma foreground_pixels_sigmoid:
  "foreground_pixels (map (map sigmoid) ch)
     = int (length (filter (\<lambda>p. 1 / 2 < sigmoid p) (concat ch)))"
proof -
  have "concat (map (map sigmoid) ch) = map sigmoid (concat ch)"
    by (simp add: map_concat)
  then show ?thesis
    by (simp add: foreground_pixels_concat filter_map o_def)
qed

lemma pred_label_of_nth:
  assumes "i < length logits" "c < length (logits ! i)"
  shows "pred_label_of (map (map (map (map sigmoid))) logits) ! i ! c =
     (if 1000 < length (filter (\<lambda>p. 1 / 2 < sigmoid p) (concat (logits ! i ! c)))
      then 1 else 0)"
  using assms by (simp add: pred_label_of_def pixel_treshold_def foreground_pixels_sigmoid)

text \<open>
  Claim C3. In \<open>validation_step\<close> and in \<open>test_step\<close> of the segmentation model
  the metric collection of the phase is updated with the derived labels of the batch,
  and, the pixel threshold being 1000, the derived label of a sample (and channel) is 1
  exactly when the number of its pixels whose sigmoid probability is strictly greater
  than 0.5 is strictly greater than 1000: 1001 such pixels give the label 1, 1000 give
  the label 0.
\<close>

theorem derived_label_threshold:
  "(SegmentationModel_validation_step env st b = Inr (out, st') \<longrightarrow>
      (\<exists>logits. SegmentationModel_forward env (seg_image b # map snd (seg_embs b)) = Inr logits
         \<and> update (val_metrics st) (pred_label_of (map (map (map (map sigmoid))) logits))
               (seg_label b) = Inr (val_metrics st')))
   \<and> (SegmentationModel_test_step env st b = Inr (out, st') \<longrightarrow>
      (\<exists>logits. SegmentationModel_forward env (seg_image b # map snd (seg_embs b)) = Inr logits
         \<and> update (test_metrics st) (pred_label_of (map (map (map (map sigmoid))) logits))
               (seg_label b) = Inr (test_metrics st')))
   \<and> (\<forall>i < length logits. \<forall>c < length (logits ! i).
        pred_label_of (map (map (map (map sigmoid))) logits) ! i ! c =
          (if 1000 < length (filter (\<lambda>p. 1 / 2 < sigmoid p) (concat (logits ! i ! c)))
           then 1 else 0))
   \<and> (length (filter (\<lambda>p. 1 / 2 < sigmoid p) (concat ch)) = 1001 \<longrightarrow>
        pred_label_of (map (map (map (map sigmoid))) [[ch]]) = [[1]])
   \<and> (length (filter (\<lambda>p. 1 / 2 < sigmoid p) (concat ch)) = 1000 \<longrightarrow>
        pred_label_of (map (map (map (map sigmoid))) [[ch]]) = [[0]])"
proof (intro conjI impI allI)
  assume "SegmentationModel_validation_step env st b = Inr (out, st')"
  then show "\<exists>logits. SegmentationModel_forward env (seg_image b # map snd (seg_embs b)) = Inr logits
         \<and> update (val_metrics st) (pred_label_of (map (map (map (map sigmoid))) logits))
               (seg_label b) = Inr (val_metrics st')"
    by (elim validation_step_Inr) simp
next
  assume "SegmentationModel_test_step env st b = Inr (out, st')"
  then show "\<exists>logits. SegmentationModel_forward env (seg_image b # map snd (seg_embs b)) = Inr logits
         \<and> update (test_metrics st) (pred_label_of (map (map (map (map sigmoid))) logits))
               (seg_label b) = Inr (test_metrics st')"
    by (elim test_step_Inr) simp
next
  fix i c assume "i < length logits" "c < length (logits ! i)"
  then show "pred_label_of (map (map (map (map sigmoid))) logits) ! i ! c =
          (if 1000 < length (filter (\<lambda>p. 1 / 2 < sigmoid p) (concat (logits ! i ! c)))
           then 1 else 0)"
    by (rule pred_label_of_nth)
next
  assume "length (filter (\<lambda>p. 1 / 2 < sigmoid p) (concat ch)) = 1001"
  then show "pred_label_of (map (map (map (map sigmoid))) [[ch]]) = [[1]]"
    by (simp add: pred_label_of_def pixel_treshold_def foreground_pixels_sigmoid)
next
  assume "length (filter (\<lambda>p. 1 / 2 < sigmoid p) (concat ch)) = 1000"
  then show "pred_label_of (map (map (map (map sigmoid))) [[ch]]) = [[0]]"
    by (simp add: pred_label_of_def pixel_treshold_def foreground_pixels_sigmoid)
qed

text \<open>
  Claim C4. A validation epoch (the steps over a batch sequence, then the reduction)
  that starts with empty accumulators and completes leaves the accumulators empty
  (statistics zero, Dice metric reset, buffered list cleared), in fact leaves the state
  it started from; run again over the same batch sequence it logs the same step values
  and the same reduced metrics, and ends in the same state.
\<close>

theorem aggregator_cycle_repeatable:
  assumes "val_accumulators_empty env st"
    and "SegmentationModel_validation_epoch env st bs = Inr (outs, reduced, st')"
  shows "val_accumulators_empty env st'
     \<and> SegmentationModel_validation_epoch env st' bs = Inr (outs, reduced, st')
     \<and> st' = st"
  using assms epoch_fixpoint [OF assms] by simp

theorem aggregator_cycle_repeatable_witness:
  "\<exists>outs reduced st'.
     SegmentationModel_validation_epoch example_env (SegmentationModel_init example_env)
       [example_batch, example_batch] = Inr (outs, reduced, st')
     \<and> val_accumulators_empty example_env st'
     \<and> SegmentationModel_validation_epoch example_env st' [example_batch, example_batch]
         = Inr (outs, reduced, st')"
proof -
  have e: "val_accumulators_empty example_env (SegmentationModel_init example_env)"
    by (simp add: seg_eval)
  obtain outs reduced where r: "SegmentationModel_validation_epoch example_env
     (SegmentationModel_init example_env) [example_batch, example_batch] =
       Inr (outs, reduced, SegmentationModel_init example_env)"
    using example_validation_epoch by blast
  from aggregator_cycle_repeatable [OF e r] r show ?thesis by blast
qed

theorem derived_label_threshold_witness:
  "pred_label_of (map (map (map (map sigmoid))) [[[replicate 1001 1]]]) = [[1]]
   \<and> pred_label_of (map (map (map (map sigmoid))) [[[replicate 1000 1 @ [- 1]]]]) = [[0]]
   \<and> (\<exists>out st'. SegmentationModel_validation_step example_env
         (SegmentationModel_init example_env)
         \<lparr>seg_image = [[[replicate 1001 1]], [[replicate 1000 1 @ [- 1]]]],
          seg_mask = [], seg_embs = [], seg_label = [[1], [0]]\<rparr> = Inr (out, st')
        \<and> update (MetricCollection ''val_'') [[1], [0]] [[1], [0]] = Inr (val_metrics st')
        \<and> tp (val_metrics st') = 1 \<and> tn (val_metrics st') = 1)"
proof -
  let ?b = "\<lparr>seg_image = [[[replicate 1001 (1::real)]], [[replicate 1000 1 @ [- 1]]]],
          seg_mask = [], seg_embs = [], seg_label = [[1], [0]]\<rparr>"
  let ?st' = "\<lparr>val_metrics = \<lparr>prefix = ''val_'', tp = 1, fp = 0, tn = 1, fn = 0\<rparr>,
         test_metrics = \<lparr>prefix = ''test_'', tp = 0, fp = 0, tn = 0, fn = 0\<rparr>,
         dice_score = 1::nat,
         validation_step_outputs =
           [([[[replicate 1001 (1::real)]], [[replicate 1000 1 @ [- 1]]]], [])]\<rparr>"
  have s: "SegmentationModel_validation_step example_env (SegmentationModel_init example_env) ?b
     = Inr ([Log ''val_loss'' 0], ?st')"
    by (simp add: seg_eval)
  have a: "length (filter (\<lambda>p. 1 / 2 < sigmoid p) (concat [replicate 1001 (1::real)])) = 1001"
    by (simp add: sigmoid_gt_half sigmoid_gt_half_mult)
  have b: "length (filter (\<lambda>p. 1 / 2 < sigmoid p) (concat [replicate 1000 (1::real) @ [- 1]]))
     = 1000"
    by (simp add: sigmoid_gt_half sigmoid_gt_half_mult)
  note t1 = derived_label_threshold [of example_env "SegmentationModel_init example_env" ?b
      "[Log ''val_loss'' 0]" ?st' "[]" "[replicate 1001 1]"]
  note t2 = derived_label_threshold [of example_env "SegmentationModel_init example_env" ?b
      "[Log ''val_loss'' 0]" ?st' "[]" "[replicate 1000 1 @ [- 1]]"]
  from t1 a have l1: "pred_label_of (map (map (map (map sigmoid))) [[[replicate 1001 1]]]) = [[1]]"
    by blast
  from t2 b have l2:
    "pred_label_of (map (map (map (map sigmoid))) [[[replicate 1000 1 @ [- 1]]]]) = [[0]]"
    by blast
  have u: "update (MetricCollection ''val_'') [[1], [0]] [[1], [0]] = Inr (val_metrics ?st')"
    by (simp add: seg_eval)
  show ?thesis using l1 l2 s u by simp
qed

lemma then_do_fails:
  "(\<And>v. r = Inr v \<Longrightarrow> \<exists>e. f v = Inl e) \<Longrightarrow> \<exists>e. then_do r f = Inl e"
  by (cases r) auto

lemma torch_cat_Nil: "torch_cat [] = Inl CatEmptyError"
  by (simp add: torch_cat_def)

lemma seg_val_end_empty:
  "validation_step_outputs st = [] \<Longrightarrow>
     \<exists>e. SegmentationModel_on_validation_epoch_end env st = Inl e"
  unfolding SegmentationModel_on_validation_epoch_end_def Let_def
  by (intro then_do_fails | simp add: torch_cat_Nil split: prod.splits | intro allI impI)+

lemma seg_test_end_empty:
  "validation_step_outputs st = [] \<Longrightarrow>
     \<exists>e. SegmentationModel_on_test_epoch_end env st = Inl e"
  unfolding SegmentationModel_on_test_epoch_end_def Let_def
  by (intro then_do_fails | simp add: torch_cat_Nil split: prod.splits | intro allI impI)+

lemmas cls_eval =
  example_cls_env_def example_cls_batch_def ClassificationModel_init_def
  ClassificationModel_forward_def batch_input_def ClassificationModel_training_step_def
  ClassificationModel_on_validation_epoch_end_def ClassificationModel_on_test_epoch_end_def
  compute_def reset_def MetricCollection_def clone_def log_confmat_def
  digit_def safe_divide_def Let_def

lemma cls_val_end_zero:
  assumes "prefix (val_metrics st) = []" "tp (val_metrics st) = 0" "fp (val_metrics st) = 0"
    "tn (val_metrics st) = 0" "fn (val_metrics st) = 0"
  shows "ClassificationModel_on_validation_epoch_end st =
     Inr ([Log ''accuracy'' 0, Log ''f1'' 0, Log ''precision'' 0, Log ''recall'' 0,
           Log ''specificity'' 0,
           Log ''confusion_matrix_0_0'' 0, Log ''confusion_matrix_0_1'' 0,
           Log ''confusion_matrix_1_0'' 0, Log ''confusion_matrix_1_1'' 0,
           Figure ''confusion_matrix'' [[0, 0], [0, 0]]], st)"
proof -
  have "st\<lparr>val_metrics := reset (val_metrics st)\<rparr> = st"
    using assms by (simp add: reset_def)
  then show ?thesis using assms
    by (simp add: ClassificationModel_on_validation_epoch_end_def compute_def
        log_confmat_def digit_def safe_divide_def Let_def)
qed

lemma cls_test_end_zero:
  assumes "prefix (test_metrics st) = ''test_''" "tp (test_metrics st) = 0"
    "fp (test_metrics st) = 0" "tn (test_metrics st) = 0" "fn (test_metrics st) = 0"
  shows "ClassificationModel_on_test_epoch_end st =
     Inr ([Log ''test_accuracy'' 0, Log ''test_f1'' 0, Log ''test_precision'' 0,
           Log ''test_recall'' 0, Log ''test_specificity'' 0,
           Log ''test_confusion_matrix_0_0'' 0, Log ''test_confusion_matrix_0_1'' 0,
           Log ''test_confusion_matrix_1_0'' 0, Log ''test_confusion_matrix_1_1'' 0,
           Figure ''confusion_matrix'' [[0, 0], [0, 0]]], st)"
proof -
  have "st\<lparr>test_metrics := reset (test_metrics st)\<rparr> = st"
    using assms by (simp add: reset_def)
  then show ?thesis using assms
    by (simp add: ClassificationModel_on_test_epoch_end_def compute_def
        log_confmat_def digit_def safe_divide_def Let_def)
qed

lemma example_training_step: "SegmentationModel_training_step example_env (SegmentationModel_init example_env)
     example_batch =
   Inr (0, [Log ''train_loss'' 0, Log ''train_dsc'' 1], SegmentationModel_init example_env)"
  by (simp add: seg_eval)


text \<open>
  Claim C5, as amended. In the segmentation model, \<open>on_validation_epoch_end\<close> and
  \<open>on_test_epoch_end\<close> raise when the buffered list is empty (at the latest, the
  concatenation of the empty list raises). In the classification model the epoch-end
  hooks have no such check and nothing to concatenate: on zero statistics they raise
  nothing and log the value 0 for every metric and every cell of the confusion matrix.
\<close>

theorem empty_epoch_end:
  "(validation_step_outputs st = [] \<longrightarrow>
      (\<exists>e. SegmentationModel_on_validation_epoch_end env st = Inl e)
      \<and> (\<exists>e. SegmentationModel_on_test_epoch_end env st = Inl e))
   \<and> (prefix (val_metrics cst) = [] \<and> tp (val_metrics cst) = 0 \<and> fp (val_metrics cst) = 0
        \<and> tn (val_metrics cst) = 0 \<and> fn (val_metrics cst) = 0 \<longrightarrow>
      ClassificationModel_on_validation_epoch_end cst =
        Inr ([Log ''accuracy'' 0, Log ''f1'' 0, Log ''precision'' 0, Log ''recall'' 0,
              Log ''specificity'' 0,
              Log ''confusion_matrix_0_0'' 0, Log ''confusion_matrix_0_1'' 0,
              Log ''confusion_matrix_1_0'' 0, Log ''confusion_matrix_1_1'' 0,
              Figure ''confusion_matrix'' [[0, 0], [0, 0]]], cst))
   \<and> (prefix (test_metrics cst) = ''test_'' \<and> tp (test_metrics cst) = 0
        \<and> fp (test_metrics cst) = 0 \<and> tn (test_metrics cst) = 0 \<and> fn (test_metrics cst) = 0 \<longrightarrow>
      ClassificationModel_on_test_epoch_end cst =
        Inr ([Log ''test_accuracy'' 0, Log ''test_f1'' 0, Log ''test_precision'' 0,
              Log ''test_recall'' 0, Log ''test_specificity'' 0,
              Log ''test_confusion_matrix_0_0'' 0, Log ''test_confusion_matrix_0_1'' 0,
              Log ''test_confusion_matrix_1_0'' 0, Log ''test_confusion_matrix_1_1'' 0,
              Figure ''confusion_matrix'' [[0, 0], [0, 0]]], cst))"
  using seg_val_end_empty [of st env] seg_test_end_empty [of st env]
    cls_val_end_zero [of cst] cls_test_end_zero [of cst]
  by blast


theorem empty_epoch_end_witness:
  "SegmentationModel_on_validation_epoch_end example_env (SegmentationModel_init example_env)
     = Inl CatEmptyError
   \<and> SegmentationModel_on_test_epoch_end example_env (SegmentationModel_init example_env)
     = Inl CatEmptyError
   \<and> map_sum id snd (ClassificationModel_on_test_epoch_end ClassificationModel_init)
     = Inr ClassificationModel_init"
proof -
  note t = empty_epoch_end [of "SegmentationModel_init example_env" example_env
      ClassificationModel_init]
  have "validation_step_outputs (SegmentationModel_init example_env) = []"
    by (simp add: seg_eval)
  moreover have "prefix (test_metrics ClassificationModel_init) = ''test_''
      \<and> tp (test_metrics ClassificationModel_init) = 0
      \<and> fp (test_metrics ClassificationModel_init) = 0
      \<and> tn (test_metrics ClassificationModel_init) = 0
      \<and> fn (test_metrics ClassificationModel_init) = 0"
    by (simp add: cls_eval)
  ultimately have "(\<exists>e. SegmentationModel_on_validation_epoch_end example_env
        (SegmentationModel_init example_env) = Inl e)
      \<and> map_sum id snd (ClassificationModel_on_test_epoch_end ClassificationModel_init)
        = Inr ClassificationModel_init"
    using t by auto
  moreover have "SegmentationModel_on_validation_epoch_end example_env
      (SegmentationModel_init example_env) = Inl CatEmptyError"
    by (simp add: seg_eval)
  moreover have "SegmentationModel_on_test_epoch_end example_env
      (SegmentationModel_init example_env) = Inl CatEmptyError"
    by (simp add: seg_eval)
  ultimately show ?thesis by simp
qed


text \<open>
  The claim as stated fails for the classification model: on the freshly constructed
  model, with nothing accumulated, \<open>on_validation_epoch_end\<close> returns normally.
\<close>

theorem classification_empty_epoch_end_counterexample:
  "ClassificationModel_on_validation_epoch_end ClassificationModel_init =
     Inr ([Log ''accuracy'' 0, Log ''f1'' 0, Log ''precision'' 0, Log ''recall'' 0,
           Log ''specificity'' 0,
           Log ''confusion_matrix_0_0'' 0, Log ''confusion_matrix_0_1'' 0,
           Log ''confusion_matrix_1_0'' 0, Log ''confusion_matrix_1_1'' 0,
           Figure ''confusion_matrix'' [[0, 0], [0, 0]]], ClassificationModel_init)"
  by (simp add: cls_eval)


lemma validation_step_indep:
  "SegmentationModel_validation_step env (st\<lparr>test_metrics := m\<rparr>) b =
     map_sum id (\<lambda>(out, s). (out, s\<lparr>test_metrics := m\<rparr>))
       (SegmentationModel_validation_step env st b)"
  by (cases st) (simp add: SegmentationModel_validation_step_def Let_def map_sum_then_do)

lemma test_step_indep:
  "SegmentationModel_test_step env (st\<lparr>val_metrics := m\<rparr>) b =
     map_sum id (\<lambda>(out, s). (out, s\<lparr>val_metrics := m\<rparr>))
       (SegmentationModel_test_step env st b)"
  by (cases st) (simp add: SegmentationModel_test_step_def Let_def map_sum_then_do)

lemma on_validation_epoch_end_indep:
  "SegmentationModel_on_validation_epoch_end env (st\<lparr>test_metrics := m\<rparr>) =
     map_sum id (\<lambda>(out, s). (out, s\<lparr>test_metrics := m\<rparr>))
       (SegmentationModel_on_validation_epoch_end env st)"
  by (cases st) (simp add: SegmentationModel_on_validation_epoch_end_def Let_def map_sum_then_do
      split_def)

lemma on_test_epoch_end_indep:
  "SegmentationModel_on_test_epoch_end env (st\<lparr>val_metrics := m\<rparr>) =
     map_sum id (\<lambda>(out, s). (out, s\<lparr>val_metrics := m\<rparr>))
       (SegmentationModel_on_test_epoch_end env st)"
  by (cases st) (simp add: SegmentationModel_on_test_epoch_end_def Let_def map_sum_then_do
      split_def)

lemma training_step_indep:
  "SegmentationModel_training_step env st b =
     map_sum id (\<lambda>(loss, out, s). (loss, out, st))
       (SegmentationModel_training_step env st0 b)"
  by (simp add: SegmentationModel_training_step_def map_sum_then_do)

text \<open>
  Claim C6, as amended. The metric collection \<open>val_metrics\<close> is touched only by the
  validation operations and \<open>test_metrics\<close> only by the test operations, and
  \<open>training_step\<close> changes no accumulator. The Dice statistic and the buffered list
  are single objects of the model, shared by the two evaluation phases:
  \<open>test_step\<close> updates the one and appends to the other as \<open>validation_step\<close>
  does, and \<open>on_test_epoch_end\<close> resets the one and clears the other.
  The last five statements say that an operation does not read the other phase's
  collection: run on a state with another value there, it does the same and leaves
  that value.
\<close>

theorem phase_accumulator_frames:
  "(SegmentationModel_validation_step env st b = Inr (out, st') \<longrightarrow>
      test_metrics st' = test_metrics st)
   \<and> (SegmentationModel_on_validation_epoch_end env st = Inr (out, st') \<longrightarrow>
      test_metrics st' = test_metrics st)
   \<and> (SegmentationModel_test_step env st b = Inr (out, st') \<longrightarrow>
      val_metrics st' = val_metrics st
      \<and> (\<exists>logits. validation_step_outputs st'
            = validation_step_outputs st @ [(logits, seg_mask b)])
      \<and> (\<exists>pred_mask. dice_update env (dice_score st) pred_mask (seg_mask b)
            = Inr (dice_score st')))
   \<and> (SegmentationModel_on_test_epoch_end env st = Inr (out, st') \<longrightarrow>
      val_metrics st' = val_metrics st
      \<and> dice_score st' = DiceScore env \<and> validation_step_outputs st' = [])
   \<and> (SegmentationModel_training_step env st b = Inr (loss, out, st') \<longrightarrow> st' = st)
   \<and> SegmentationModel_validation_step env (st\<lparr>test_metrics := m\<rparr>) b =
       map_sum id (\<lambda>(out, s). (out, s\<lparr>test_metrics := m\<rparr>))
         (SegmentationModel_validation_step env st b)
   \<and> SegmentationModel_on_validation_epoch_end env (st\<lparr>test_metrics := m\<rparr>) =
       map_sum id (\<lambda>(out, s). (out, s\<lparr>test_metrics := m\<rparr>))
         (SegmentationModel_on_validation_epoch_end env st)
   \<and> SegmentationModel_test_step env (st\<lparr>val_metrics := m\<rparr>) b =
       map_sum id (\<lambda>(out, s). (out, s\<lparr>val_metrics := m\<rparr>))
         (SegmentationModel_test_step env st b)
   \<and> SegmentationModel_on_test_epoch_end env (st\<lparr>val_metrics := m\<rparr>) =
       map_sum id (\<lambda>(out, s). (out, s\<lparr>val_metrics := m\<rparr>))
         (SegmentationModel_on_test_epoch_end env st)
   \<and> SegmentationModel_training_step env st b =
       map_sum id (\<lambda>(loss, out, s). (loss, out, st))
         (SegmentationModel_training_step env st0 b)"
proof (intro conjI impI)
  assume "SegmentationModel_validation_step env st b = Inr (out, st')"
  then show "test_metrics st' = test_metrics st"
    by (elim validation_step_Inr) simp
next
  assume "SegmentationModel_on_validation_epoch_end env st = Inr (out, st')"
  from on_validation_epoch_end_Inr [OF this] show "test_metrics st' = test_metrics st"
    by simp
next
  assume t: "SegmentationModel_test_step env st b = Inr (out, st')"
  then show "val_metrics st' = val_metrics st"
    by (elim test_step_Inr) simp
next
  assume t: "SegmentationModel_test_step env st b = Inr (out, st')"
  then show "\<exists>logits. validation_step_outputs st'
      = validation_step_outputs st @ [(logits, seg_mask b)]"
    by (elim test_step_Inr) simp
next
  assume t: "SegmentationModel_test_step env st b = Inr (out, st')"
  then show "\<exists>pred_mask. dice_update env (dice_score st) pred_mask (seg_mask b)
      = Inr (dice_score st')"
    by (elim test_step_Inr) auto
next
  assume e: "SegmentationModel_on_test_epoch_end env st = Inr (out, st')"
  from on_test_epoch_end_Inr [OF e] show "val_metrics st' = val_metrics st" by simp
next
  assume e: "SegmentationModel_on_test_epoch_end env st = Inr (out, st')"
  from on_test_epoch_end_Inr [OF e] show "dice_score st' = DiceScore env" by simp
next
  assume e: "SegmentationModel_on_test_epoch_end env st = Inr (out, st')"
  from on_test_epoch_end_Inr [OF e] show "validation_step_outputs st' = []" by simp
next
  assume "SegmentationModel_training_step env st b = Inr (loss, out, st')"
  then show "st' = st" by (elim training_step_Inr)
next
  show "SegmentationModel_validation_step env (st\<lparr>test_metrics := m\<rparr>) b =
       map_sum id (\<lambda>(out, s). (out, s\<lparr>test_metrics := m\<rparr>))
         (SegmentationModel_validation_step env st b)"
    by (rule validation_step_indep)
next
  show "SegmentationModel_on_validation_epoch_end env (st\<lparr>test_metrics := m\<rparr>) =
       map_sum id (\<lambda>(out, s). (out, s\<lparr>test_metrics := m\<rparr>))
         (SegmentationModel_on_validation_epoch_end env st)"
    by (rule on_validation_epoch_end_indep)
next
  show "SegmentationModel_test_step env (st\<lparr>val_metrics := m\<rparr>) b =
       map_sum id (\<lambda>(out, s). (out, s\<lparr>val_metrics := m\<rparr>))
         (SegmentationModel_test_step env st b)"
    by (rule test_step_indep)
next
  show "SegmentationModel_on_test_epoch_end env (st\<lparr>val_metrics := m\<rparr>) =
       map_sum id (\<lambda>(out, s). (out, s\<lparr>val_metrics := m\<rparr>))
         (SegmentationModel_on_test_epoch_end env st)"
    by (rule on_test_epoch_end_indep)
next
  show "SegmentationModel_training_step env st b =
       map_sum id (\<lambda>(loss, out, s). (loss, out, st))
         (SegmentationModel_training_step env st0 b)"
    by (rule training_step_indep)
qed


lemma example_test_step: "SegmentationModel_test_step example_env (SegmentationModel_init example_env)
     example_batch =
   Inr ([Log ''test_loss'' 0],
        \<lparr>val_metrics = \<lparr>prefix = ''val_'', tp = 0, fp = 0, tn = 0, fn = 0\<rparr>,
         test_metrics = \<lparr>prefix = ''test_'', tp = 0, fp = 0, tn = 1, fn = 0\<rparr>,
         dice_score = 1,
         validation_step_outputs = [([[[[1, - 1]]]], [[[[1, 0]]]])]\<rparr>)"
  by (simp add: seg_eval)


theorem phase_accumulator_frames_witness:
  "\<exists>out st'. SegmentationModel_test_step example_env (SegmentationModel_init example_env)
       example_batch = Inr (out, st')
     \<and> val_metrics st' = val_metrics (SegmentationModel_init example_env)
     \<and> (\<exists>logits. validation_step_outputs st' = [(logits, seg_mask example_batch)])"
proof -
  let ?st' = "\<lparr>val_metrics = \<lparr>prefix = ''val_'', tp = 0, fp = 0, tn = 0, fn = 0\<rparr>,
         test_metrics = \<lparr>prefix = ''test_'', tp = 0, fp = 0, tn = 1, fn = 0\<rparr>,
         dice_score = 1::nat,
         validation_step_outputs = [([[[[1, - 1]]]], [[[[1, 0::real]]]])]\<rparr>"
  note t = phase_accumulator_frames [of example_env "SegmentationModel_init example_env"
      example_batch "[Log ''test_loss'' 0]" ?st' 0,
      THEN conjunct2, THEN conjunct2, THEN conjunct1, rule_format, OF example_test_step]
  have i: "validation_step_outputs (SegmentationModel_init example_env) = []"
    by (simp add: SegmentationModel_init_def Let_def)
  from t have "val_metrics ?st' = val_metrics (SegmentationModel_init example_env)"
    by (rule conjunct1)
  moreover from t have "\<exists>logits. validation_step_outputs ?st'
      = validation_step_outputs (SegmentationModel_init example_env)
          @ [(logits, seg_mask example_batch)]"
    by (elim conjE)
  ultimately show ?thesis using example_test_step unfolding i append_Nil by blast
qed

text \<open>
  The claim as stated fails: a \<open>test_step\<close> changes the Dice statistic and the
  buffered list, and \<open>on_validation_epoch_end\<close>, which raises on the fresh model,
  then completes and logs a Dice value and an F-score computed from the test batch.
\<close>

theorem shared_accumulators_counterexample:
  "map_sum id (\<lambda>(out, st). (dice_score st, validation_step_outputs st))
     (SegmentationModel_test_step example_env (SegmentationModel_init example_env)
        example_batch) = Inr (1, [([[[[1, - 1]]]], [[[[1, 0]]]])])
   \<and> SegmentationModel_on_validation_epoch_end example_env (SegmentationModel_init example_env)
     = Inl CatEmptyError
   \<and> then_do (SegmentationModel_test_step example_env (SegmentationModel_init example_env)
        example_batch)
       (\<lambda>(out, st). map_sum id fst (SegmentationModel_on_validation_epoch_end example_env st))
     = Inr [Log ''val_dsc'' 1, Log ''val_accuracy'' 0, Log ''val_f1'' 0,
            Log ''val_precision'' 0, Log ''val_recall'' 0, Log ''val_specificity'' 0,
            Log ''val_confusion_matrix_0_0'' 0, Log ''val_confusion_matrix_0_1'' 0,
            Log ''val_confusion_matrix_1_0'' 0, Log ''val_confusion_matrix_1_1'' 0,
            Figure ''val_confusion_matrix'' [[0, 0], [0, 0]], Log ''val_smp'' 1]"
  by (simp add: seg_eval)


lemma cls_training_step_Inr:
  assumes "ClassificationModel_training_step env st b = Inr (loss, out, st')"
  obtains x logits where
    "batch_input env b = Inr x"
    "ClassificationModel_forward env x = Inr logits"
    "cls_loss_fn env logits (cls_label b) = Inr loss"
    "out = [Log ''train_loss'' loss]"
    "st' = st"
  using assms unfolding ClassificationModel_training_step_def
  by (elim then_do_InrE) auto


text \<open>
  Claim C10. \<open>training_step\<close> of the segmentation model and of the classification
  model leaves \<open>val_metrics\<close>, \<open>test_metrics\<close>, the Dice statistic and the buffered
  list unchanged, and what it returns is the value of the loss function on the logits
  of the forward pass and the batch's target.
\<close>

theorem training_step_no_aggregation:
  "(SegmentationModel_training_step env st b = Inr (loss, out, st') \<longrightarrow>
      val_metrics st' = val_metrics st \<and> test_metrics st' = test_metrics st
      \<and> dice_score st' = dice_score st
      \<and> validation_step_outputs st' = validation_step_outputs st
      \<and> (\<exists>embs logits. lookup_all (seg_embs b) [''z3'', ''z6'', ''z9'', ''z12''] = Inr embs
            \<and> SegmentationModel_forward env (seg_image b # embs) = Inr logits
            \<and> seg_loss_fn env logits (seg_mask b) = Inr loss))
   \<and> (ClassificationModel_training_step cenv cst cb = Inr (closs, cout, cst') \<longrightarrow>
      val_metrics cst' = val_metrics cst \<and> test_metrics cst' = test_metrics cst
      \<and> (\<exists>x logits. batch_input cenv cb = Inr x
            \<and> ClassificationModel_forward cenv x = Inr logits
            \<and> cls_loss_fn cenv logits (cls_label cb) = Inr closs))"
proof (intro conjI impI)
  assume t: "SegmentationModel_training_step env st b = Inr (loss, out, st')"
  then have "st' = st" by (elim training_step_Inr)
  then show "val_metrics st' = val_metrics st" by simp
next
  assume t: "SegmentationModel_training_step env st b = Inr (loss, out, st')"
  then have "st' = st" by (elim training_step_Inr)
  then show "test_metrics st' = test_metrics st" by simp
next
  assume t: "SegmentationModel_training_step env st b = Inr (loss, out, st')"
  then have "st' = st" by (elim training_step_Inr)
  then show "dice_score st' = dice_score st" by simp
next
  assume t: "SegmentationModel_training_step env st b = Inr (loss, out, st')"
  then have "st' = st" by (elim training_step_Inr)
  then show "validation_step_outputs st' = validation_step_outputs st" by simp
next
  assume t: "SegmentationModel_training_step env st b = Inr (loss, out, st')"
  then show "\<exists>embs logits. lookup_all (seg_embs b) [''z3'', ''z6'', ''z9'', ''z12''] = Inr embs
            \<and> SegmentationModel_forward env (seg_image b # embs) = Inr logits
            \<and> seg_loss_fn env logits (seg_mask b) = Inr loss"
    by (elim training_step_Inr) blast
next
  assume t: "ClassificationModel_training_step cenv cst cb = Inr (closs, cout, cst')"
  then have "cst' = cst" by (elim cls_training_step_Inr)
  then show "val_metrics cst' = val_metrics cst" by simp
next
  assume t: "ClassificationModel_training_step cenv cst cb = Inr (closs, cout, cst')"
  then have "cst' = cst" by (elim cls_training_step_Inr)
  then show "test_metrics cst' = test_metrics cst" by simp
next
  assume t: "ClassificationModel_training_step cenv cst cb = Inr (closs, cout, cst')"
  then show "\<exists>x logits. batch_input cenv cb = Inr x
            \<and> ClassificationModel_forward cenv x = Inr logits
            \<and> cls_loss_fn cenv logits (cls_label cb) = Inr closs"
    by (elim cls_training_step_Inr) blast
qed


theorem training_step_no_aggregation_witness:
  "(\<exists>out st'. SegmentationModel_training_step example_env (SegmentationModel_init example_env)
        example_batch = Inr (0, out, st')
      \<and> val_metrics st' = MetricCollection ''val_''
      \<and> validation_step_outputs st' = [])
   \<and> (\<exists>out st'. ClassificationModel_training_step example_cls_env ClassificationModel_init
        example_cls_batch = Inr (0, out, st')
      \<and> val_metrics st' = MetricCollection [])"
proof -
  have c: "ClassificationModel_training_step example_cls_env ClassificationModel_init
        example_cls_batch = Inr (0, [Log ''train_loss'' 0], ClassificationModel_init)"
    by (simp add: cls_eval)
  have i: "val_metrics (SegmentationModel_init example_env) = MetricCollection ''val_''"
    "validation_step_outputs (SegmentationModel_init example_env) = []"
    "val_metrics ClassificationModel_init = MetricCollection []"
    by (simp_all add: SegmentationModel_init_def ClassificationModel_init_def Let_def)
  from training_step_no_aggregation [of example_env "SegmentationModel_init example_env"
      example_batch 0 "[Log ''train_loss'' 0, Log ''train_dsc'' 1]"
      "SegmentationModel_init example_env" example_cls_env ClassificationModel_init
      example_cls_batch 0 "[Log ''train_loss'' 0]" ClassificationModel_init] example_training_step c i
  show ?thesis by simp
qed


lemma validation_steps_outputs:
  "SegmentationModel_validation_steps env st bs = Inr (outs, st1) \<Longrightarrow>
     \<exists>ls. list_all2 (\<lambda>b l. SegmentationModel_forward env (seg_image b # map snd (seg_embs b))
                         = Inr l) bs ls
       \<and> validation_step_outputs st1
           = validation_step_outputs st @ zip ls (map seg_mask bs)"
proof (induction bs arbitrary: st outs)
  case Nil
  then show ?case by simp
next
  case (Cons b bs)
  from Cons.prems obtain out st2 outs2 where
    s1: "SegmentationModel_validation_step env st b = Inr (out, st2)" and
    s2: "SegmentationModel_validation_steps env st2 bs = Inr (outs2, st1)"
    by (auto elim!: then_do_InrE split: prod.splits)
  from s1 obtain l where
    l: "SegmentationModel_forward env (seg_image b # map snd (seg_embs b)) = Inr l" and
    o: "validation_step_outputs st2 = validation_step_outputs st @ [(l, seg_mask b)]"
    by (elim validation_step_Inr) simp
  from Cons.IH [OF s2] obtain ls where
    ls: "list_all2 (\<lambda>b l. SegmentationModel_forward env (seg_image b # map snd (seg_embs b))
                         = Inr l) bs ls"
    and o2: "validation_step_outputs st1
           = validation_step_outputs st2 @ zip ls (map seg_mask bs)"
    by blast
  have "list_all2 (\<lambda>b l. SegmentationModel_forward env (seg_image b # map snd (seg_embs b))
                         = Inr l) (b # bs) (l # ls)"
    using l ls by simp
  moreover have "validation_step_outputs st1
      = validation_step_outputs st @ zip (l # ls) (map seg_mask (b # bs))"
    using o o2 by simp
  ultimately show ?case by blast
qed

lemma on_validation_epoch_end_smp:
  assumes "SegmentationModel_on_validation_epoch_end env st = Inr (reduced, st')"
  shows "\<exists>L T v. torch_cat (map fst (validation_step_outputs st)) = Inr L
     \<and> torch_cat (map snd (validation_step_outputs st)) = Inr T
     \<and> Fscore env L T = Inr v \<and> last reduced = Log ''val_smp'' v"
  using assms unfolding SegmentationModel_on_validation_epoch_end_def Let_def
  by (elim then_do_InrE) (auto split: prod.splits elim!: then_do_InrE)

lemma epoch_smp:
  assumes e: "validation_step_outputs st = []"
    and r: "SegmentationModel_validation_epoch env st bs = Inr (outs, reduced, st')"
  shows "\<exists>ls L T v.
       list_all2 (\<lambda>b l. SegmentationModel_forward env (seg_image b # map snd (seg_embs b))
                         = Inr l) bs ls
     \<and> torch_cat ls = Inr L \<and> torch_cat (map seg_mask bs) = Inr T
     \<and> Fscore env L T = Inr v \<and> last reduced = Log ''val_smp'' v"
proof -
  from r obtain st1 where
    s: "SegmentationModel_validation_steps env st bs = Inr (outs, st1)" and
    f: "SegmentationModel_on_validation_epoch_end env st1 = Inr (reduced, st')"
    unfolding SegmentationModel_validation_epoch_def
    by (auto elim!: then_do_InrE split: prod.splits)
  from validation_steps_outputs [OF s] e obtain ls where
    ls: "list_all2 (\<lambda>b l. SegmentationModel_forward env (seg_image b # map snd (seg_embs b))
                         = Inr l) bs ls"
    and o: "validation_step_outputs st1 = zip ls (map seg_mask bs)"
    by auto
  have len: "length ls = length (map seg_mask bs)"
    using ls by (simp add: list_all2_lengthD)
  have "map fst (validation_step_outputs st1) = ls"
    "map snd (validation_step_outputs st1) = map seg_mask bs"
    unfolding o using len by (simp_all add: map_fst_zip map_snd_zip)
  with on_validation_epoch_end_smp [OF f] ls show ?thesis by auto
qed

lemmas epoch_eval =
  SegmentationModel_init_def SegmentationModel_forward_def
  SegmentationModel_validation_step_def SegmentationModel_on_validation_epoch_end_def
  SegmentationModel_validation_epoch_def
  update_def binary_values_def pred_label_of_def foreground_pixels_def pixel_treshold_def
  compute_def reset_def MetricCollection_def clone_def log_confmat_def
  digit_def torch_cat_def safe_divide_def Let_def sigmoid_gt_half sigmoid_gt_half_mult

lemma epoch_label_1:
  assumes "seg_model env [x] = Inr [[[replicate 1001 1]]]"
    and "seg_loss_fn env [[[replicate 1001 1]]] [[[replicate 1001 1]]] = Inr l"
    and "dice_update env (DiceScore env)
           (pred_mask_of (map (map (map (map sigmoid))) [[[replicate 1001 1]]]))
           [[[replicate 1001 1]]] = Inr d"
    and "dice_compute env d = Inr dv"
    and "Fscore env [[[replicate 1001 1]]] [[[replicate 1001 1]]] = Inr v"
  shows "SegmentationModel_validation_epoch env (SegmentationModel_init env)
           [\<lparr>seg_image = x, seg_mask = [[[replicate 1001 1]]], seg_embs = [],
             seg_label = [[1]]\<rparr>] =
         Inr ([Log ''val_loss'' l],
              [Log ''val_dsc'' dv, Log ''val_accuracy'' 1, Log ''val_f1'' 1,
               Log ''val_precision'' 1, Log ''val_recall'' 1, Log ''val_specificity'' 0,
               Log ''val_confusion_matrix_0_0'' 0, Log ''val_confusion_matrix_0_1'' 0,
               Log ''val_confusion_matrix_1_0'' 0, Log ''val_confusion_matrix_1_1'' 1,
               Figure ''val_confusion_matrix'' [[0, 0], [0, 1]], Log ''val_smp'' v],
              SegmentationModel_init env)"
  using assms by (simp add: epoch_eval)

lemma epoch_label_0:
  assumes "seg_model env [x] = Inr [[[replicate 1001 1]]]"
    and "seg_loss_fn env [[[replicate 1001 1]]] [[[replicate 1001 1]]] = Inr l"
    and "dice_update env (DiceScore env)
           (pred_mask_of (map (map (map (map sigmoid))) [[[replicate 1001 1]]]))
           [[[replicate 1001 1]]] = Inr d"
    and "dice_compute env d = Inr dv"
    and "Fscore env [[[replicate 1001 1]]] [[[replicate 1001 1]]] = Inr v"
  shows "SegmentationModel_validation_epoch env (SegmentationModel_init env)
           [\<lparr>seg_image = x, seg_mask = [[[replicate 1001 1]]], seg_embs = [],
             seg_label = [[0]]\<rparr>] =
         Inr ([Log ''val_loss'' l],
              [Log ''val_dsc'' dv, Log ''val_accuracy'' 0, Log ''val_f1'' 0,
               Log ''val_precision'' 0, Log ''val_recall'' 0, Log ''val_specificity'' 0,
               Log ''val_confusion_matrix_0_0'' 0, Log ''val_confusion_matrix_0_1'' 1,
               Log ''val_confusion_matrix_1_0'' 0, Log ''val_confusion_matrix_1_1'' 0,
               Figure ''val_confusion_matrix'' [[0, 1], [0, 0]], Log ''val_smp'' v],
              SegmentationModel_init env)"
  using assms by (simp add: epoch_eval)

lemma epoch_diverges:
  assumes "seg_model env [x] = Inr [[[replicate 1001 1]]]"
    and "seg_loss_fn env [[[replicate 1001 1]]] [[[replicate 1001 1]]] = Inr l"
    and "dice_update env (DiceScore env)
           (pred_mask_of (map (map (map (map sigmoid))) [[[replicate 1001 1]]]))
           [[[replicate 1001 1]]] = Inr d"
    and "dice_compute env d = Inr dv"
    and "Fscore env [[[replicate 1001 1]]] [[[replicate 1001 1]]] = Inr v"
  shows "\<exists>lab outs reduced st' a.
       SegmentationModel_validation_epoch env (SegmentationModel_init env)
           [\<lparr>seg_image = x, seg_mask = [[[replicate 1001 1]]], seg_embs = [],
             seg_label = lab\<rparr>] = Inr (outs, reduced, st')
     \<and> Log ''val_f1'' a \<in> set reduced \<and> Log ''val_smp'' v \<in> set reduced
     \<and> 1 / 2 \<le> \<bar>a - v\<bar>"
proof (cases "1 / 2 \<le> v")
  case True
  then have "1 / 2 \<le> \<bar>0 - v\<bar>" by simp
  with epoch_label_0 [OF assms] show ?thesis
    by (intro exI [of _ "[[0]]"] exI [of _ "0::real"] exI conjI) (assumption | simp)+
next
  case False
  then have "1 / 2 \<le> \<bar>1 - v\<bar>" by simp
  with epoch_label_1 [OF assms] show ?thesis
    by (intro exI [of _ "[[1]]"] exI [of _ "1::real"] exI conjI) (assumption | simp)+
qed

text \<open>
  Claim C7, as amended. At the end of a validation epoch that started with an empty
  buffer, the last value logged, \<open>val_smp\<close>, is the F-score function applied to the
  concatenation, in batch order, of the logits of all the steps and to the
  concatenation of their targets. The code does not compare it with the incrementally
  tracked metrics, and the tracked F1 (\<open>val_f1\<close>, computed from the derived labels of
  the samples) is another quantity: whatever the F-score function returns on a batch
  of one sample with 1001 foreground pixels, for one of the two labels of that sample
  the epoch logs a \<open>val_f1\<close> that differs from \<open>val_smp\<close> by at least 1/2.
\<close>

theorem epoch_end_fscore_recomputation:
  "(validation_step_outputs st = []
      \<and> SegmentationModel_validation_epoch env st bs = Inr (outs, reduced, st') \<longrightarrow>
      (\<exists>ls L T v.
          list_all2 (\<lambda>b l. SegmentationModel_forward env (seg_image b # map snd (seg_embs b))
                         = Inr l) bs ls
        \<and> torch_cat ls = Inr L \<and> torch_cat (map seg_mask bs) = Inr T
        \<and> Fscore env L T = Inr v \<and> last reduced = Log ''val_smp'' v))
   \<and> (seg_model env [x] = Inr [[[replicate 1001 1]]]
      \<and> seg_loss_fn env [[[replicate 1001 1]]] [[[replicate 1001 1]]] = Inr l
      \<and> dice_update env (DiceScore env)
           (pred_mask_of (map (map (map (map sigmoid))) [[[replicate 1001 1]]]))
           [[[replicate 1001 1]]] = Inr d
      \<and> dice_compute env d = Inr dv
      \<and> Fscore env [[[replicate 1001 1]]] [[[replicate 1001 1]]] = Inr w \<longrightarrow>
      (\<exists>lab outs reduced st' a.
          SegmentationModel_validation_epoch env (SegmentationModel_init env)
            [\<lparr>seg_image = x, seg_mask = [[[replicate 1001 1]]], seg_embs = [],
              seg_label = lab\<rparr>] = Inr (outs, reduced, st')
        \<and> Log ''val_f1'' a \<in> set reduced \<and> Log ''val_smp'' w \<in> set reduced
        \<and> 1 / 2 \<le> \<bar>a - w\<bar>))"
proof (intro conjI impI)
  assume "validation_step_outputs st = []
      \<and> SegmentationModel_validation_epoch env st bs = Inr (outs, reduced, st')"
  then show "\<exists>ls L T v.
          list_all2 (\<lambda>b l. SegmentationModel_forward env (seg_image b # map snd (seg_embs b))
                         = Inr l) bs ls
        \<and> torch_cat ls = Inr L \<and> torch_cat (map seg_mask bs) = Inr T
        \<and> Fscore env L T = Inr v \<and> last reduced = Log ''val_smp'' v"
    using epoch_smp [of st env bs outs reduced st'] by blast
next
  assume h: "seg_model env [x] = Inr [[[replicate 1001 1]]]
      \<and> seg_loss_fn env [[[replicate 1001 1]]] [[[replicate 1001 1]]] = Inr l
      \<and> dice_update env (DiceScore env)
           (pred_mask_of (map (map (map (map sigmoid))) [[[replicate 1001 1]]]))
           [[[replicate 1001 1]]] = Inr d
      \<and> dice_compute env d = Inr dv
      \<and> Fscore env [[[replicate 1001 1]]] [[[replicate 1001 1]]] = Inr w"
  show "\<exists>lab outs reduced st' a.
          SegmentationModel_validation_epoch env (SegmentationModel_init env)
            [\<lparr>seg_image = x, seg_mask = [[[replicate 1001 1]]], seg_embs = [],
              seg_label = lab\<rparr>] = Inr (outs, reduced, st')
        \<and> Log ''val_f1'' a \<in> set reduced \<and> Log ''val_smp'' w \<in> set reduced
        \<and> 1 / 2 \<le> \<bar>a - w\<bar>"
    by (rule epoch_diverges [OF h [THEN conjunct1] h [THEN conjunct2, THEN conjunct1]
          h [THEN conjunct2, THEN conjunct2, THEN conjunct1]
          h [THEN conjunct2, THEN conjunct2, THEN conjunct2, THEN conjunct1]
          h [THEN conjunct2, THEN conjunct2, THEN conjunct2, THEN conjunct2]])
qed

lemma concat_replicate_replicate:
  "concat (replicate m (replicate n x)) = replicate (m * n) x"
  by (induction m) (simp_all add: replicate_add)

lemma f_score_16: "f_score [[replicate 16 (replicate 16 1)]] [[replicate 16 (replicate 16 1)]] = 1"
  by (simp add: f_score_def Let_def sigmoid_gt_half sigmoid_gt_half_mult sum_list_replicate
      concat_replicate_replicate)

lemma f_score_1001: "f_score [[[replicate 1001 1]]] [[[replicate 1001 1]]] = 1"
  by (simp add: f_score_def Let_def sigmoid_gt_half sigmoid_gt_half_mult sum_list_replicate)

theorem epoch_end_fscore_recomputation_witness:
  "\<exists>lab outs reduced st' a.
      SegmentationModel_validation_epoch library_env (SegmentationModel_init library_env)
        [\<lparr>seg_image = [[[replicate 1001 1]]], seg_mask = [[[replicate 1001 1]]],
          seg_embs = [], seg_label = lab\<rparr>] = Inr (outs, reduced, st')
    \<and> Log ''val_f1'' a \<in> set reduced \<and> Log ''val_smp'' 1 \<in> set reduced
    \<and> 1 / 2 \<le> \<bar>a - 1\<bar>"
proof -
  have "seg_model library_env [[[[replicate 1001 1]]]] = Inr [[[replicate 1001 1]]]
      \<and> seg_loss_fn library_env [[[replicate 1001 1]]] [[[replicate 1001 1]]] = Inr 0
      \<and> dice_update library_env (DiceScore library_env)
           (pred_mask_of (map (map (map (map sigmoid))) [[[replicate 1001 1]]]))
           [[[replicate 1001 1]]] = Inr 1
      \<and> dice_compute library_env 1 = Inr 1
      \<and> Fscore library_env [[[replicate 1001 1]]] [[[replicate 1001 1]]] = Inr 1"
    by (simp add: library_env_def example_env_def f_score_1001)
  with epoch_end_fscore_recomputation [of _ library_env _ _ _ _ "[[[replicate 1001 1]]]"
      0 1 1 1, THEN conjunct2]
  show ?thesis by (rule mp)
qed

text \<open>
  The claim as stated fails on a batch of one sample of \<open>16 \<times> 16\<close> pixels, all
  of them foreground in the mask and in the prediction, with the label 1: the F-score
  over the concatenation is 1, while the derived label is negative (256 pixels are not
  more than 1000), so that the tracked F1 is 0.
\<close>

theorem tracked_f1_differs_from_fscore_counterexample:
  "SegmentationModel_validation_epoch library_env (SegmentationModel_init library_env)
     [\<lparr>seg_image = [[replicate 16 (replicate 16 1)]],
       seg_mask = [[replicate 16 (replicate 16 1)]],
       seg_embs = [], seg_label = [[1]]\<rparr>] =
   Inr ([Log ''val_loss'' 0],
        [Log ''val_dsc'' 1, Log ''val_accuracy'' 0, Log ''val_f1'' 0,
         Log ''val_precision'' 0, Log ''val_recall'' 0, Log ''val_specificity'' 0,
         Log ''val_confusion_matrix_0_0'' 0, Log ''val_confusion_matrix_0_1'' 0,
         Log ''val_confusion_matrix_1_0'' 1, Log ''val_confusion_matrix_1_1'' 0,
         Figure ''val_confusion_matrix'' [[0, 0], [1, 0]], Log ''val_smp'' 1],
        SegmentationModel_init library_env)
   \<and> \<not> \<bar>(0::real) - 1\<bar> \<le> 1 / 10000"
  by (simp add: library_env_def seg_eval f_score_16 sum_list_replicate)

end
